theory Spec2Isabelle
  imports Main
begin

section \<open>Errors, logging and the record of remote calls\<close>

text \<open>
  Go errors are values. The constructors follow what the two source files do with them:
  \<^item> \<open>ErrNoSuchUser\<close> is the sentinel \<open>admin.ErrNoSuchUser\<close> that \<open>Revoke\<close> tests with
    \<open>errors.Is\<close>;
  \<^item> \<open>AwsError code\<close> is an \<open>awserr.Error\<close> with that \<open>Code()\<close>, the only type the source
    asserts (\<open>err.(awserr.Error)\<close>);
  \<^item> \<open>ErrorMsg m\<close> is \<open>errors.New\<close>/\<open>errors.Errorf\<close> and any other error of a collaborator;
  \<^item> \<open>Wrapped e m\<close> is \<open>errors.Wrap(e, m)\<close> and \<open>errors.Wrapf(e, m, ...)\<close> of a non-nil \<open>e\<close>;
  \<^item> \<open>Panic m\<close> stands for a run-time panic (nil dereference, index out of range): the
    function does not return to its caller, which the model renders as this result.
  Messages are the format strings of the source, without their arguments.
\<close>

datatype error =
    ErrNoSuchUser
  | AwsError string
  | ErrorMsg string
  | Wrapped error string
  | Panic string

text \<open>\<open>errors.Wrap\<close> and \<open>errors.Wrapf\<close> of github.com/pkg/errors return nil for a nil error.\<close>

fun Wrapf :: "error option \<Rightarrow> string \<Rightarrow> error option" where
  "Wrapf None m = None"
| "Wrapf (Some e) m = Some (Wrapped e m)"

text \<open>\<open>errors.Is\<close>: the error itself or one it wraps.\<close>

fun errors_Is :: "error \<Rightarrow> error \<Rightarrow> bool" where
  "errors_Is (Wrapped e m) t = (Wrapped e m = t \<or> errors_Is e t)"
| "errors_Is e t = (e = t)"

datatype level = LvlDebug | LvlInfo | LvlWarning | LvlError

section \<open>Data of the object store\<close>

text \<open>
  Modelled from the spec: the policy statement and its builder chain (\<open>NewPolicyStatement\<close>,
  \<open>WithSID\<close>, \<open>ForPrincipals\<close>, \<open>ForResources\<close>, \<open>ForSubResources\<close>, \<open>Allows\<close>/\<open>Denies\<close>,
  \<open>Actions\<close>) are declared in package \<open>object\<close>, outside the two source files. A statement
  is the value the spec describes: a principal, an effect (allow or deny), a resource
  (the bucket and its sub-resources) and an action set, with the statement id the source
  passes to \<open>WithSID\<close>. Each builder sets its own field and leaves the others.
\<close>

datatype effect = EffectUnset | EffectAllow | EffectDeny

datatype resource = BucketResource string | SubResources string

record policy_statement =
  st_sid :: string
  st_principals :: "string list"
  st_resources :: "resource list"
  st_effect :: effect
  st_actions :: "string list"

definition NewPolicyStatement :: policy_statement where
  "NewPolicyStatement =
     \<lparr>st_sid = [], st_principals = [], st_resources = [], st_effect = EffectUnset, st_actions = []\<rparr>"

definition WithSID :: "string \<Rightarrow> policy_statement \<Rightarrow> policy_statement" where
  "WithSID sid st = st\<lparr>st_sid := sid\<rparr>"

definition ForPrincipals :: "string \<Rightarrow> policy_statement \<Rightarrow> policy_statement" where
  "ForPrincipals u st = st\<lparr>st_principals := st_principals st @ [u]\<rparr>"

definition ForResources :: "string \<Rightarrow> policy_statement \<Rightarrow> policy_statement" where
  "ForResources b st = st\<lparr>st_resources := st_resources st @ [BucketResource b]\<rparr>"

definition ForSubResources :: "string \<Rightarrow> policy_statement \<Rightarrow> policy_statement" where
  "ForSubResources b st = st\<lparr>st_resources := st_resources st @ [SubResources b]\<rparr>"

definition Allows :: "policy_statement \<Rightarrow> policy_statement" where
  "Allows st = st\<lparr>st_effect := EffectAllow\<rparr>"

definition Denies :: "policy_statement \<Rightarrow> policy_statement" where
  "Denies st = st\<lparr>st_effect := EffectDeny\<rparr>"

definition Actions :: "string list \<Rightarrow> policy_statement \<Rightarrow> policy_statement" where
  "Actions as st = st\<lparr>st_actions := as\<rparr>"

type_synonym bucket_policy = "policy_statement list"

record user_key =
  key_access :: string
  key_secret :: string

text \<open>
  \<open>admin.QuotaSpec\<close>: the fields are pointers in Go, \<open>None\<close> is the nil pointer (the field
  is not sent).
\<close>

record quota_spec =
  qs_uid :: string
  qs_enabled :: "bool option"
  qs_max_objects :: "int option"
  qs_max_size :: "int option"

record admin_user =
  user_id :: string
  user_keys :: "user_key list"
  user_quota :: quota_spec

record admin_bucket =
  bkt_name :: string
  bkt_owner :: string

text \<open>
  The S3 session of \<open>NewS3Agent\<close>: the credentials it was opened with and the endpoint,
  the host and port that \<open>getObjectStoreEndpoint\<close> joins with \<open>Sprintf("%s:%d")\<close>.
\<close>

record s3_agent =
  agent_access_key :: string
  agent_secret_key :: string
  agent_endpoint :: "string \<times> int"

text \<open>
  Every call that reaches the object store (admin API, S3 data plane) or one of the
  provisioner's helpers that are not in the two source files (\<open>createCephUser\<close>,
  \<open>bucketExists\<close>, \<open>deleteOBCResource\<close>) is recorded, in order.
  \<open>DeleteOBCResource user bucket\<close> is the call \<open>p.deleteOBCResource(bucket)\<close> with
  \<open>p.cephUserName = user\<close>: the helper that deletes the user's account.
\<close>

datatype call =
    CreateCephUser string
  | BucketExists string
  | DeleteOBCResource string string
  | ModifyUser string int
  | GetUser string
  | GetBucketInfo string
  | SetUserQuota quota_spec
  | CreateBucket string
  | GetBucketPolicy string
  | PutBucketPolicy string bucket_policy

record state =
  calls :: "call list"
  logs :: "(level \<times> string) list"

definition logf :: "level \<Rightarrow> string \<Rightarrow> state \<Rightarrow> state" where
  "logf l m s = s\<lparr>logs := logs s @ [(l, m)]\<rparr>"

definition record_call :: "call \<Rightarrow> state \<Rightarrow> state" where
  "record_call c s = s\<lparr>calls := calls s @ [c]\<rparr>"

section \<open>Kubernetes-side data\<close>

record toleration =
  tol_key :: string
  tol_operator :: string
  tol_value :: string
  tol_effect :: string
  tol_seconds :: "int option"

definition TolerationOpExists :: string where
  "TolerationOpExists = ''Exists''"

text \<open>A Go \<open>map[string]string\<close>; reading a missing key gives the empty string.\<close>

type_synonym string_map = "string \<rightharpoonup> string"

definition map_get :: "string_map \<Rightarrow> string \<Rightarrow> string" where
  "map_get m k = (case m k of None \<Rightarrow> [] | Some v \<Rightarrow> v)"

record storage_class =
  sc_parameters :: string_map

record object_store =
  os_namespace :: string
  os_secure_port :: int
  os_GetPort :: "int \<times> error option"
  os_IsTLSEnabled :: bool

record object_context =
  oc_name :: string
  oc_CephClusterSpec :: "string option"

record admin_api =
  api_endpoint :: string
  api_access_key :: string
  api_secret_key :: string

text \<open>
  The \<open>ObjectBucket\<close> (the binding): its name and storage class, the endpoint, the
  access keys and the additional state of its connection.
\<close>

record object_bucket =
  ob_name :: string
  ob_storage_class_name :: string
  ob_bucket_host :: string
  ob_bucket_port :: int
  ob_bucket_name :: string
  ob_region :: string
  ob_additional_config_data :: string_map
  ob_access_key_id :: string
  ob_secret_access_key :: string
  ob_additional_state :: string_map

record object_bucket_claim =
  obc_name :: string
  obc_namespace :: string
  obc_storage_class_name :: string
  obc_additional_config :: string_map

record bucket_options =
  opt_bucket_name :: string
  opt_claim :: object_bucket_claim

text \<open>The receiver \<open>Provisioner\<close>; only the fields the methods read or write.\<close>

record provisioner =
  bucketName :: string
  storeDomainName :: string
  storePort :: int
  region :: string
  cephUserName :: string
  accessKeyID :: string
  secretAccessKey :: string
  objectStoreName :: string
  endpoint :: string
  additionalConfigData :: string_map
  tlsCert :: "string option"
  objectContext :: "object_context option"
  adminOpsClient :: "admin_api option"

section \<open>The collaborators\<close>

text \<open>
  Everything the two source files call and do not define is a field of the environment:
  the Kubernetes helpers, the object-store admin API, the S3 data plane, the policy
  document operations of package \<open>object\<close>, and the provisioner's own helpers that live in
  other files. A remote call answers as a function of the calls made so far and of its
  arguments, so the theorems hold for every behaviour of the remote side.
\<close>

record env =
  \<comment> \<open>packages k8sutil and controller, the logger's level\<close>
  OperatorSettingConfigMapName :: string
  GetOperatorSetting :: "string \<Rightarrow> string \<Rightarrow> string \<Rightarrow> string \<times> error option"
  YamlToTolerations :: "string \<Rightarrow> toleration list \<times> error option"
  OperatorNotInitializedMessage :: string
  error_Contains :: "error \<Rightarrow> string \<Rightarrow> bool"
  LevelAtDebug :: bool
  \<comment> \<open>constants and helpers of package bucket defined in other files\<close>
  key_objectStoreName :: string
  key_objectStoreEndpoint :: string
  key_cephUser :: string
  getObjectStoreName :: "storage_class \<Rightarrow> string"
  getObjectStoreNameSpace :: "storage_class \<Rightarrow> string"
  getObjectStoreEndpoint_sc :: "storage_class \<Rightarrow> string"
  isStaticBucket :: "storage_class \<Rightarrow> string \<times> bool"
  getBucketName :: "object_bucket \<Rightarrow> string"
  getCephUser :: "object_bucket \<Rightarrow> string"
  MaxObjectQuota :: "string_map \<Rightarrow> string"
  MaxSizeQuota :: "string_map \<Rightarrow> string"
  getStorageClassWithBackoff :: "string \<Rightarrow> error + storage_class"
  getObjectStore :: "provisioner \<Rightarrow> error + object_store"
  getCephCluster :: "provisioner \<Rightarrow> string option \<times> error option"
  createCephUser :: "call list \<Rightarrow> provisioner \<Rightarrow> string \<Rightarrow> string \<times> (error + string \<times> string)"
  bucketExists :: "call list \<Rightarrow> provisioner \<Rightarrow> string \<Rightarrow> bool \<times> error option"
  deleteOBCResource :: "call list \<Rightarrow> provisioner \<Rightarrow> string \<Rightarrow> error option"
  \<comment> \<open>packages object and util, the admin client's constructor\<close>
  NewContext :: "string \<Rightarrow> object_context"
  NewMultisiteContext :: "object_store \<Rightarrow> object_context option \<times> error option"
  BuildDomainName :: "string \<Rightarrow> string \<Rightarrow> string"
  BuildDNSEndpoint :: "string \<Rightarrow> int \<Rightarrow> bool \<Rightarrow> string"
  GetIPFromEndpoint :: "string \<Rightarrow> string"
  GetPortFromEndpoint :: "string \<Rightarrow> int"
  GetTlsCaCert :: "object_context option \<Rightarrow> object_store \<Rightarrow> string option \<times> error option"
  GetAdminOPSUserCredentials :: "object_context \<Rightarrow> object_store \<Rightarrow> error + string \<times> string"
  admin_New :: "string \<Rightarrow> string \<Rightarrow> string \<Rightarrow> bool \<Rightarrow> string option \<Rightarrow> admin_api option \<times> error option"
  NewS3Agent :: "string \<Rightarrow> string \<Rightarrow> string \<times> int \<Rightarrow> bool \<Rightarrow> string option \<Rightarrow> error option"
  AllowedActions :: "string list"
  NewBucketPolicy :: "policy_statement \<Rightarrow> bucket_policy"
  ModifyBucketPolicy :: "bucket_policy \<Rightarrow> policy_statement \<Rightarrow> bucket_policy"
  DropPolicyStatements :: "bucket_policy \<Rightarrow> string \<Rightarrow> bucket_policy"
  \<comment> \<open>the admin API\<close>
  adm_ModifyUser :: "call list \<Rightarrow> string \<Rightarrow> int \<Rightarrow> error option"
  adm_GetUser :: "call list \<Rightarrow> string \<Rightarrow> error + admin_user"
  adm_GetBucketInfo :: "call list \<Rightarrow> string \<Rightarrow> error + admin_bucket"
  adm_SetUserQuota :: "call list \<Rightarrow> quota_spec \<Rightarrow> error option"
  \<comment> \<open>the S3 data plane\<close>
  s3_CreateBucket :: "call list \<Rightarrow> s3_agent \<Rightarrow> string \<Rightarrow> error option"
  s3_GetBucketPolicy :: "call list \<Rightarrow> s3_agent \<Rightarrow> string \<Rightarrow> bucket_policy option \<times> error option"
  s3_PutBucketPolicy :: "call list \<Rightarrow> s3_agent \<Rightarrow> string \<Rightarrow> bucket_policy \<Rightarrow> error option"

section \<open>Package csi: tolerations\<close>

text \<open>
  The loop of \<open>getToleration\<close> over the parsed tolerations: an empty key forces the
  operator \<open>Exists\<close>, and the operator \<open>Exists\<close> (also the one just set) clears the value.
\<close>

fun normalizeTolerations :: "toleration list \<Rightarrow> toleration list" where
  "normalizeTolerations [] = []"
| "normalizeTolerations (t # ts) =
     (let t1 = (if tol_key t = [] then t\<lparr>tol_operator := TolerationOpExists\<rparr> else t);
          t2 = (if tol_operator t1 = TolerationOpExists then t1\<lparr>tol_value := []\<rparr> else t1)
      in t2 # normalizeTolerations ts)"

definition getToleration :: "env \<Rightarrow> string \<Rightarrow> toleration list \<Rightarrow> state \<Rightarrow> toleration list \<times> state" where
  "getToleration env tolerationsName defaultTolerations s =
     (case GetOperatorSetting env (OperatorSettingConfigMapName env) tolerationsName [] of
        (tolerationsRaw, Some err) \<Rightarrow> (defaultTolerations, logf LvlWarning ''failed to read %q. %v'' s)
      | (tolerationsRaw, None) \<Rightarrow>
          if tolerationsRaw = [] then (defaultTolerations, s)
          else (case YamlToTolerations env tolerationsRaw of
                  (tolerations, Some err) \<Rightarrow>
                    (defaultTolerations, logf LvlWarning ''failed to parse %q for %q. %v'' s)
                | (tolerations, None) \<Rightarrow> (normalizeTolerations tolerations, s)))"

section \<open>Package bucket: parsing the quota strings\<close>

text \<open>
  \<open>strconv.Atoi\<close> of the Go standard library, on a 64-bit platform: an optional sign, then
  one or more decimal digits and nothing else; a value outside the range of \<open>int\<close> is a
  range error.
\<close>

definition is_digit :: "char \<Rightarrow> bool" where
  "is_digit c = (48 \<le> (of_char c :: nat) \<and> (of_char c :: nat) \<le> 57)"

fun digits_to_int :: "int \<Rightarrow> string \<Rightarrow> int" where
  "digits_to_int acc [] = acc"
| "digits_to_int acc (c # cs) = digits_to_int (10 * acc + (of_char c - 48)) cs"

definition split_sign :: "string \<Rightarrow> bool \<times> string" where
  "split_sign s =
     (case s of
        [] \<Rightarrow> (False, [])
      | c # cs \<Rightarrow> if c = CHR ''-'' then (True, cs) else if c = CHR ''+'' then (False, cs) else (False, s))"

definition in_int64 :: "int \<Rightarrow> bool" where
  "in_int64 v = (- (2 ^ 63) \<le> v \<and> v < 2 ^ 63)"

definition Atoi :: "string \<Rightarrow> error + int" where
  "Atoi s =
     (case split_sign s of (neg, ds) \<Rightarrow>
        if ds = [] \<or> \<not> list_all is_digit ds then Inl (ErrorMsg ''strconv.Atoi: invalid syntax'')
        else (let v = (if neg then - digits_to_int 0 ds else digits_to_int 0 ds)
              in if in_int64 v then Inr v else Inl (ErrorMsg ''strconv.Atoi: value out of range'')))"

text \<open>
  Modelled from the spec: \<open>resource.ParseQuantity\<close> and \<open>Quantity.Value\<close> belong to the
  Kubernetes API machinery, not to the source files. The spec says that a max-size string
  is parsed as a human-readable byte quantity, accepting suffixes like Ki/Mi/Gi, and
  converted to an exact byte count, and that anything else is a parse failure. The model
  reads an optional sign, one or more decimal digits and an optional suffix: a binary one
  (Ki, Mi, Gi, Ti, Pi, Ei: powers of 1024) or a decimal one (k, M, G, T, P, E: powers of
  1000). Fractions and exponents, which need rounding, and byte counts beyond 64 bits are
  not covered: the model reports them as failures.
\<close>

definition suffix_multiplier :: "string \<Rightarrow> int option" where
  "suffix_multiplier sfx =
     (if sfx = [] then Some 1
      else if sfx = ''Ki'' then Some (2 ^ 10)
      else if sfx = ''Mi'' then Some (2 ^ 20)
      else if sfx = ''Gi'' then Some (2 ^ 30)
      else if sfx = ''Ti'' then Some (2 ^ 40)
      else if sfx = ''Pi'' then Some (2 ^ 50)
      else if sfx = ''Ei'' then Some (2 ^ 60)
      else if sfx = ''k'' then Some (10 ^ 3)
      else if sfx = ''M'' then Some (10 ^ 6)
      else if sfx = ''G'' then Some (10 ^ 9)
      else if sfx = ''T'' then Some (10 ^ 12)
      else if sfx = ''P'' then Some (10 ^ 15)
      else if sfx = ''E'' then Some (10 ^ 18)
      else None)"

definition ParseQuantityValue :: "string \<Rightarrow> error + int" where
  "ParseQuantityValue s =
     (case split_sign s of (neg, r) \<Rightarrow>
        (let ds = takeWhile is_digit r; sfx = dropWhile is_digit r
         in if ds = [] then Inl (ErrorMsg ''quantities must match the regular expression'')
            else (case suffix_multiplier sfx of
                    None \<Rightarrow> Inl (ErrorMsg ''unable to parse quantity's suffix'')
                  | Some m \<Rightarrow>
                      (let v = (if neg then - (digits_to_int 0 ds * m) else digits_to_int 0 ds * m)
                       in if in_int64 v then Inr v
                          else Inl (ErrorMsg ''quantity does not fit 64 bits'')))))"

definition maxSizeToInt64 :: "string \<Rightarrow> error + int" where
  "maxSizeToInt64 maxSize =
     (case ParseQuantityValue maxSize of
        Inl err \<Rightarrow> Inl (Wrapped err ''failed to parse quantity'')
      | Inr v \<Rightarrow> Inr v)"

section \<open>Package bucket: resolving the provisioner's state\<close>

definition setBucketName :: "string \<Rightarrow> provisioner \<Rightarrow> provisioner" where
  "setBucketName n p = p\<lparr>bucketName := n\<rparr>"

definition setObjectStoreName :: "env \<Rightarrow> storage_class \<Rightarrow> provisioner \<Rightarrow> provisioner" where
  "setObjectStoreName env sc p = p\<lparr>objectStoreName := map_get (sc_parameters sc) (key_objectStoreName env)\<rparr>"

text \<open>
  \<open>setAdditionalConfigData\<close> replaces a map of length 0 (nil or empty) by a fresh empty map;
  both are \<open>Map.empty\<close> here, so the field is set to the argument.
\<close>

definition setAdditionalConfigData :: "string_map \<Rightarrow> provisioner \<Rightarrow> provisioner" where
  "setAdditionalConfigData cfg p = p\<lparr>additionalConfigData := cfg\<rparr>"

definition setEndpoint :: "env \<Rightarrow> storage_class \<Rightarrow> provisioner \<Rightarrow> provisioner" where
  "setEndpoint env sc p = p\<lparr>endpoint := map_get (sc_parameters sc) (key_objectStoreEndpoint env)\<rparr>"

definition setRegion :: "storage_class \<Rightarrow> provisioner \<Rightarrow> provisioner" where
  "setRegion sc p = p\<lparr>region := map_get (sc_parameters sc) ''region''\<rparr>"

definition getObjectStoreEndpoint :: "provisioner \<Rightarrow> string \<times> int" where
  "getObjectStoreEndpoint p = (storeDomainName p, storePort p)"

definition setObjectContext :: "env \<Rightarrow> provisioner \<Rightarrow> error option \<times> provisioner" where
  "setObjectContext env p =
     (if objectStoreName p = [] \<and> endpoint p = []
      then (Some (ErrorMsg ''error building object.Context: store %s cannot be empty''), p)
      else if endpoint p \<noteq> []
      then (None, p\<lparr>objectContext := Some (NewContext env (objectStoreName p))\<rparr>)
      else (case getObjectStore env p of
              Inl err \<Rightarrow> (Some (Wrapped err ''failed to get cephObjectStore''), p)
            | Inr store \<Rightarrow>
                (case NewMultisiteContext env store of
                   (ctx, Some err) \<Rightarrow>
                     (Some (Wrapped err ''failed to set multisite on provisioner's objectContext''),
                      p\<lparr>objectContext := ctx\<rparr>)
                 | (ctx, None) \<Rightarrow> (None, p\<lparr>objectContext := ctx\<rparr>))))"

definition setObjectStoreDomainName :: "env \<Rightarrow> storage_class \<Rightarrow> provisioner \<Rightarrow> error option \<times> provisioner" where
  "setObjectStoreDomainName env sc p =
     (let name = getObjectStoreName env sc; namespace = getObjectStoreNameSpace env sc
      in case getObjectStore env p of
           Inl err \<Rightarrow> (Some err, p)
         | Inr store \<Rightarrow> (None, p\<lparr>storeDomainName := BuildDomainName env name namespace\<rparr>))"

definition setObjectStorePort :: "env \<Rightarrow> provisioner \<Rightarrow> error option \<times> provisioner" where
  "setObjectStorePort env p =
     (case getObjectStore env p of
        Inl err \<Rightarrow> (Some (Wrapped err ''failed to get cephObjectStore''), p)
      | Inr store \<Rightarrow> (snd (os_GetPort store), p\<lparr>storePort := fst (os_GetPort store)\<rparr>))"

definition populateDomainAndPort :: "env \<Rightarrow> storage_class \<Rightarrow> provisioner \<Rightarrow> error option \<times> provisioner" where
  "populateDomainAndPort env sc p =
     (let ep = getObjectStoreEndpoint_sc env sc
      in if ep \<noteq> []
         then (let p1 = p\<lparr>storeDomainName := GetIPFromEndpoint env ep\<rparr>
               in if storeDomainName p1 = []
                  then (Some (ErrorMsg ''failed to discover endpoint IP (is empty)''), p1)
                  else (let p2 = p1\<lparr>storePort := GetPortFromEndpoint env ep\<rparr>
                        in if storePort p2 = 0
                           then (Some (ErrorMsg ''failed to discover endpoint port (is empty)''), p2)
                           else (None, p2)))
         else (case setObjectStoreDomainName env sc p of
                 (Some err, p1) \<Rightarrow> (Some (Wrapped err ''failed to set object store domain name''), p1)
               | (None, p1) \<Rightarrow>
                   (case setObjectStorePort env p1 of
                      (Some err, p2) \<Rightarrow> (Some (Wrapped err ''failed to set object store port''), p2)
                    | (None, p2) \<Rightarrow> (None, p2))))"

definition setTlsCaCert :: "env \<Rightarrow> provisioner \<Rightarrow> error option \<times> provisioner" where
  "setTlsCaCert env p =
     (case getObjectStore env p of
        Inl err \<Rightarrow> (Some err, p)
      | Inr objStore \<Rightarrow>
          (let p1 = p\<lparr>tlsCert := Some []\<rparr>
           in if os_secure_port objStore = storePort p1
              then (case GetTlsCaCert env (objectContext p1) objStore of
                      (cert, Some err) \<Rightarrow> (Some err, p1\<lparr>tlsCert := cert\<rparr>)
                    | (cert, None) \<Rightarrow> (None, p1\<lparr>tlsCert := cert\<rparr>))
              else (None, p1)))"

definition setAdminOpsAPIClient :: "env \<Rightarrow> provisioner \<Rightarrow> error option \<times> provisioner" where
  "setAdminOpsAPIClient env p =
     (case getObjectStore env p of
        Inl err \<Rightarrow> (Some (Wrapped err ''failed to get ceph object store %q''), p)
      | Inr cephObjectStore \<Rightarrow>
          (case getCephCluster env p of
             (cephCluster, Some err) \<Rightarrow> (Some (Wrapped err ''failed to get ceph cluster in namespace %q''), p)
           | (None, None) \<Rightarrow> (Some (ErrorMsg ''failed to read ceph cluster in namespace %q, it's nil''), p)
           | (Some clusterSpec, None) \<Rightarrow>
               (case objectContext p of
                  None \<Rightarrow> (Some (Panic ''nil pointer dereference''), p)
                | Some ctx0 \<Rightarrow>
                    (let ctx = ctx0\<lparr>oc_CephClusterSpec := Some clusterSpec\<rparr>;
                         p1 = p\<lparr>objectContext := Some ctx\<rparr>
                     in case GetAdminOPSUserCredentials env ctx cephObjectStore of
                          Inl err \<Rightarrow> (Some (Wrapped err ''failed to retrieve rgw admin ops user''), p1)
                        | Inr (accessKey, secretKey) \<Rightarrow>
                            (let s3endpoint =
                                   BuildDNSEndpoint env
                                     (BuildDomainName env (oc_name ctx) (os_namespace cephObjectStore))
                                     (storePort p1) (os_IsTLSEnabled cephObjectStore)
                             in case admin_New env s3endpoint accessKey secretKey (LevelAtDebug env) (tlsCert p1) of
                                  (client, Some err) \<Rightarrow>
                                    (Some (Wrapped err ''failed to build admin ops API connection''),
                                     p1\<lparr>adminOpsClient := client\<rparr>)
                                | (client, None) \<Rightarrow> (None, p1\<lparr>adminOpsClient := client\<rparr>))))))"

definition initializeCreateOrGrant ::
  "env \<Rightarrow> bucket_options \<Rightarrow> provisioner \<Rightarrow> state \<Rightarrow> error option \<times> provisioner \<times> state" where
  "initializeCreateOrGrant env options p s0 =
     (let s1 = logf LvlInfo ''initializing and setting CreateOrGrant services'' s0;
          obc = opt_claim options;
          scName = obc_storage_class_name obc
      in case getStorageClassWithBackoff env scName of
           Inl err \<Rightarrow>
             (Some err, p, logf LvlError ''failed to get storage class for OBC %q in namespace %q. %v'' s1)
         | Inr sc \<Rightarrow>
             (let p1 = setBucketName (opt_bucket_name options) p;
                  p2 = (case isStaticBucket env sc of
                          (staticName, isStatic) \<Rightarrow> if isStatic then setBucketName staticName p1 else p1);
                  p3 = setObjectStoreName env sc p2;
                  p4 = setRegion sc p3;
                  p5 = setAdditionalConfigData (obc_additional_config obc) p4;
                  p6 = setEndpoint env sc p5
              in case setObjectContext env p6 of
                   (Some err, p7) \<Rightarrow> (Some err, p7, s1)
                 | (None, p7) \<Rightarrow>
                     (case populateDomainAndPort env sc p7 of
                        (Some err, p8) \<Rightarrow> (Some (Wrapped err ''failed to set domain and port''), p8, s1)
                      | (None, p8) \<Rightarrow>
                          (case setTlsCaCert env p8 of
                             (Some err, p9) \<Rightarrow>
                               (Some (Wrapped err
                                  ''failed to set CA cert for the OBC %q to connect with object store %q via TLS''),
                                p9, s1)
                           | (None, p9) \<Rightarrow>
                               (case setAdminOpsAPIClient env p9 of
                                  (Some err, p10) \<Rightarrow>
                                    (if error_Contains env err (OperatorNotInitializedMessage env)
                                     then (Some (ErrorMsg (OperatorNotInitializedMessage env)), p10, s1)
                                     else (Some (Wrapped err ''failed to set admin ops api client''), p10, s1))
                                | (None, p10) \<Rightarrow> (None, p10, s1))))))"

definition initializeDeleteOrRevoke ::
  "env \<Rightarrow> object_bucket \<Rightarrow> provisioner \<Rightarrow> error option \<times> provisioner" where
  "initializeDeleteOrRevoke env ob p =
     (case getStorageClassWithBackoff env (ob_storage_class_name ob) of
        Inl err \<Rightarrow> (Some (Wrapped err ''failed to get storage class for OB %q''), p)
      | Inr sc \<Rightarrow>
          (let p1 = setBucketName (getBucketName env ob) p;
               p2 = p1\<lparr>cephUserName := getCephUser env ob\<rparr>;
               p3 = p2\<lparr>objectStoreName := getObjectStoreName env sc\<rparr>;
               p4 = setEndpoint env sc p3
           in case setObjectContext env p4 of
                (Some err, p5) \<Rightarrow> (Some err, p5)
              | (None, p5) \<Rightarrow>
                  (case populateDomainAndPort env sc p5 of
                     (Some err, p6) \<Rightarrow> (Some err, p6)
                   | (None, p6) \<Rightarrow>
                       (case setTlsCaCert env p6 of
                          (Some err, p7) \<Rightarrow>
                            (Some (Wrapped err
                               ''failed to set CA cert for the OB %q to connect with object store %q via TLS''),
                             p7)
                        | (None, p7) \<Rightarrow>
                            (case setAdminOpsAPIClient env p7 of
                               (Some err, p8) \<Rightarrow>
                                 (if error_Contains env err (OperatorNotInitializedMessage env)
                                  then (Some (ErrorMsg (OperatorNotInitializedMessage env)), p8)
                                  else (Some (Wrapped err ''failed to set admin ops api client''), p8))
                             | (None, p8) \<Rightarrow> (None, p8))))))"

definition composeObjectBucket :: "env \<Rightarrow> provisioner \<Rightarrow> object_bucket" where
  "composeObjectBucket env p =
     \<lparr>ob_name = [], ob_storage_class_name = [],
      ob_bucket_host = storeDomainName p, ob_bucket_port = storePort p,
      ob_bucket_name = bucketName p, ob_region = region p,
      ob_additional_config_data = additionalConfigData p,
      ob_access_key_id = accessKeyID p, ob_secret_access_key = secretAccessKey p,
      ob_additional_state = [key_cephUser env \<mapsto> cephUserName p]\<rparr>"

section \<open>Package bucket: calls to the collaborators\<close>

text \<open>Each wrapper asks the environment with the calls made so far and records the call.\<close>

definition call_createCephUser ::
  "env \<Rightarrow> string \<Rightarrow> provisioner \<Rightarrow> state \<Rightarrow> (error + string \<times> string) \<times> provisioner \<times> state" where
  "call_createCephUser env username p s =
     (case createCephUser env (calls s) p username of
        (name, r) \<Rightarrow> (r, p\<lparr>cephUserName := name\<rparr>, record_call (CreateCephUser name) s))"

definition call_bucketExists :: "env \<Rightarrow> provisioner \<Rightarrow> string \<Rightarrow> state \<Rightarrow> (bool \<times> error option) \<times> state" where
  "call_bucketExists env p name s = (bucketExists env (calls s) p name, record_call (BucketExists name) s)"

definition call_deleteOBCResource :: "env \<Rightarrow> provisioner \<Rightarrow> string \<Rightarrow> state \<Rightarrow> error option \<times> state" where
  "call_deleteOBCResource env p bucketname s =
     (deleteOBCResource env (calls s) p bucketname,
      record_call (DeleteOBCResource (cephUserName p) bucketname) s)"

definition call_ModifyUser :: "env \<Rightarrow> string \<Rightarrow> int \<Rightarrow> state \<Rightarrow> error option \<times> state" where
  "call_ModifyUser env uid maxBuckets s =
     (adm_ModifyUser env (calls s) uid maxBuckets, record_call (ModifyUser uid maxBuckets) s)"

definition call_GetUser :: "env \<Rightarrow> string \<Rightarrow> state \<Rightarrow> (error + admin_user) \<times> state" where
  "call_GetUser env uid s = (adm_GetUser env (calls s) uid, record_call (GetUser uid) s)"

definition call_GetBucketInfo :: "env \<Rightarrow> string \<Rightarrow> state \<Rightarrow> (error + admin_bucket) \<times> state" where
  "call_GetBucketInfo env b s = (adm_GetBucketInfo env (calls s) b, record_call (GetBucketInfo b) s)"

definition call_SetUserQuota :: "env \<Rightarrow> quota_spec \<Rightarrow> state \<Rightarrow> error option \<times> state" where
  "call_SetUserQuota env q s = (adm_SetUserQuota env (calls s) q, record_call (SetUserQuota q) s)"

definition call_CreateBucket :: "env \<Rightarrow> s3_agent \<Rightarrow> string \<Rightarrow> state \<Rightarrow> error option \<times> state" where
  "call_CreateBucket env a b s = (s3_CreateBucket env (calls s) a b, record_call (CreateBucket b) s)"

definition call_GetBucketPolicy ::
  "env \<Rightarrow> s3_agent \<Rightarrow> string \<Rightarrow> state \<Rightarrow> (bucket_policy option \<times> error option) \<times> state" where
  "call_GetBucketPolicy env a b s = (s3_GetBucketPolicy env (calls s) a b, record_call (GetBucketPolicy b) s)"

definition call_PutBucketPolicy ::
  "env \<Rightarrow> s3_agent \<Rightarrow> string \<Rightarrow> bucket_policy \<Rightarrow> state \<Rightarrow> error option \<times> state" where
  "call_PutBucketPolicy env a b pol s =
     (s3_PutBucketPolicy env (calls s) a b pol, record_call (PutBucketPolicy b pol) s)"

definition new_agent :: "env \<Rightarrow> string \<Rightarrow> string \<Rightarrow> provisioner \<Rightarrow> error + s3_agent" where
  "new_agent env accessKey secretKey p =
     (case NewS3Agent env accessKey secretKey (getObjectStoreEndpoint p) (LevelAtDebug env) (tlsCert p) of
        Some err \<Rightarrow> Inl err
      | None \<Rightarrow>
          Inr \<lparr>agent_access_key = accessKey, agent_secret_key = secretKey,
               agent_endpoint = getObjectStoreEndpoint p\<rparr>)"

section \<open>Package bucket: cleanup and quota\<close>

definition deleteOBCResourceLogError :: "env \<Rightarrow> provisioner \<Rightarrow> string \<Rightarrow> state \<Rightarrow> state" where
  "deleteOBCResourceLogError env p bucketname s =
     (case call_deleteOBCResource env p bucketname s of
        (Some err, s1) \<Rightarrow> logf LvlWarning ''failed to delete OBC resource. %v'' s1
      | (None, s1) \<Rightarrow> s1)"

definition setAdditionalSettings :: "env \<Rightarrow> bucket_options \<Rightarrow> provisioner \<Rightarrow> state \<Rightarrow> error option \<times> state" where
  "setAdditionalSettings env options p s =
     (let quotaEnabled = True;
          maxObjects = MaxObjectQuota env (obc_additional_config (opt_claim options));
          maxSize = MaxSizeQuota env (obc_additional_config (opt_claim options))
      in if maxObjects = [] \<and> maxSize = [] then (None, s)
         else (case call_SetUserQuota env
                      \<lparr>qs_uid = cephUserName p, qs_enabled = Some quotaEnabled,
                       qs_max_objects = None, qs_max_size = None\<rparr> s of
                 (Some err, s1) \<Rightarrow> (Some (Wrapped err ''failed to enable user %q quota for obc''), s1)
               | (None, s1) \<Rightarrow>
                   (case (if maxObjects \<noteq> []
                          then (case Atoi maxObjects of
                                  Inl err \<Rightarrow> (Some (Wrapped err ''failed to convert maxObjects to integer''), s1)
                                | Inr maxObjectsInt \<Rightarrow>
                                    (case call_SetUserQuota env
                                            \<lparr>qs_uid = cephUserName p, qs_enabled = None,
                                             qs_max_objects = Some maxObjectsInt, qs_max_size = None\<rparr> s1 of
                                       (Some err, s2) \<Rightarrow>
                                         (Some (Wrapped err ''failed to set MaxObject to user %q''), s2)
                                     | (None, s2) \<Rightarrow> (None, s2)))
                          else (None, s1)) of
                      (Some err, s2) \<Rightarrow> (Some err, s2)
                    | (None, s2) \<Rightarrow>
                        (if maxSize \<noteq> []
                         then (case maxSizeToInt64 maxSize of
                                 Inl err \<Rightarrow> (Some (Wrapped err ''failed to parse maxSize quota for user %q''), s2)
                               | Inr maxSizeInt \<Rightarrow>
                                   (case call_SetUserQuota env
                                           \<lparr>qs_uid = cephUserName p, qs_enabled = None,
                                            qs_max_objects = None, qs_max_size = Some maxSizeInt\<rparr> s2 of
                                      (Some err, s3) \<Rightarrow>
                                        (Some (Wrapped err ''failed to set MaxSize to user %q''), s3)
                                    | (None, s3) \<Rightarrow> (None, s3)))
                         else (None, s2)))))"

text \<open>
  \<open>updateAdditionalSettings\<close>, in two parts: \<open>updateAdditionalSettings_quota\<close> is what
  follows the lookup of the user. The zero values of \<open>maxObjectsInt64\<close> and
  \<open>maxSizeInt64\<close> stay when the string is empty. The stored quota's fields are pointers:
  dereferencing a nil one panics, and \<open>&&\<close> dereferences \<open>MaxObjects\<close> and \<open>MaxSize\<close> only
  when the requested string is not empty, \<open>MaxObjects\<close> first.
\<close>

definition updateAdditionalSettings_quota ::
  "env \<Rightarrow> provisioner \<Rightarrow> string \<Rightarrow> int \<Rightarrow> string \<Rightarrow> int \<Rightarrow> admin_user \<Rightarrow> state \<Rightarrow> error option \<times> state" where
  "updateAdditionalSettings_quota env p maxObjects maxObjectsInt64 maxSize maxSizeInt64 objectUser s1 =
     (case qs_enabled (user_quota objectUser) of
        None \<Rightarrow> (Some (Panic ''nil pointer dereference''), s1)
      | Some storedEnabled \<Rightarrow>
          if storedEnabled \<and> (maxObjects = [] \<or> maxObjectsInt64 < 0) \<and> (maxSize = [] \<or> maxSizeInt64 < 0)
          then (case call_SetUserQuota env
                       \<lparr>qs_uid = cephUserName p, qs_enabled = Some False,
                        qs_max_objects = None, qs_max_size = None\<rparr> s1 of
                  (Some err, s2) \<Rightarrow> (Some (Wrapped err ''failed to disable quota to user %q''), s2)
                | (None, s2) \<Rightarrow> (None, s2))
          else if maxObjects \<noteq> [] \<and> qs_max_objects (user_quota objectUser) = None
          then (Some (Panic ''nil pointer dereference''), s1)
          else if maxSize \<noteq> [] \<and> qs_max_size (user_quota objectUser) = None
          then (Some (Panic ''nil pointer dereference''), s1)
          else (let quotaSpec0 = \<lparr>qs_uid = cephUserName p, qs_enabled = Some True,
                                  qs_max_objects = None, qs_max_size = None\<rparr>;
                    quotaSpec1 = (if maxObjects \<noteq> []
                                     \<and> Some maxObjectsInt64 \<noteq> qs_max_objects (user_quota objectUser)
                                  then quotaSpec0\<lparr>qs_max_objects := Some maxObjectsInt64\<rparr>
                                  else quotaSpec0);
                    quotaSpec2 = (if maxSize \<noteq> []
                                     \<and> Some maxSizeInt64 \<noteq> qs_max_size (user_quota objectUser)
                                  then quotaSpec1\<lparr>qs_max_size := Some maxSizeInt64\<rparr>
                                  else quotaSpec1)
                in case call_SetUserQuota env quotaSpec2 s1 of
                     (Some err, s2) \<Rightarrow> (Some (Wrapped err ''failed to update quota to user %q''), s2)
                   | (None, s2) \<Rightarrow> (None, s2)))"

definition updateAdditionalSettings :: "env \<Rightarrow> object_bucket \<Rightarrow> provisioner \<Rightarrow> state \<Rightarrow> error option \<times> state" where
  "updateAdditionalSettings env ob p s =
     (let maxObjects = MaxObjectQuota env (ob_additional_config_data ob);
          maxSize = MaxSizeQuota env (ob_additional_config_data ob)
      in case (if maxObjects \<noteq> [] then Atoi maxObjects else Inr 0) of
           Inl err \<Rightarrow> (Some (Wrapped err ''failed to convert maxObjects to integer''), s)
         | Inr maxObjectsInt64 \<Rightarrow>
             (case (if maxSize \<noteq> [] then maxSizeToInt64 maxSize else Inr 0) of
                Inl err \<Rightarrow> (Some (Wrapped err ''failed to parse maxSize quota for user %q''), s)
              | Inr maxSizeInt64 \<Rightarrow>
                  (case call_GetUser env (map_get (ob_additional_state ob) (key_cephUser env)) s of
                     (Inl err, s1) \<Rightarrow> (Some (Wrapped err ''failed to fetch user %q''), s1)
                   | (Inr objectUser, s1) \<Rightarrow>
                       updateAdditionalSettings_quota env p maxObjects maxObjectsInt64
                         maxSize maxSizeInt64 objectUser s1)))"

section \<open>Package bucket: the lifecycle operations\<close>

text \<open>
  \<open>Provision\<close> and \<open>Grant\<close> return a pair in Go (the binding and the error), and either
  may be nil; the model keeps both components. The receiver is passed by value, so the
  changes to \<open>p\<close> stay inside the call.
\<close>

definition Provision ::
  "env \<Rightarrow> bucket_options \<Rightarrow> provisioner \<Rightarrow> state \<Rightarrow> (object_bucket option \<times> error option) \<times> state" where
  "Provision env options p0 s0 =
     (case initializeCreateOrGrant env options p0 (logf LvlDebug ''Provision event for OB options: %+v'' s0) of
        (Some err, p1, s1) \<Rightarrow> ((None, Some err), s1)
      | (None, p1, s1) \<Rightarrow>
          (case call_createCephUser env [] p1 (logf LvlInfo ''Provision: creating bucket %q for OBC %q'' s1) of
             (Inl err, p2, s2) \<Rightarrow> ((None, Some (Wrapped err ''Provision: can't create ceph user'')), s2)
           | (Inr (accKey, secKey), p2, s2) \<Rightarrow>
               (let p = p2\<lparr>accessKeyID := accKey, secretAccessKey := secKey\<rparr>
                in case new_agent env (accessKeyID p) (secretAccessKey p) p of
                     Inl err \<Rightarrow> ((None, Some err), deleteOBCResourceLogError env p [] s2)
                   | Inr s3svc \<Rightarrow>
                       (case call_CreateBucket env s3svc (bucketName p) s2 of
                          (Some err, s3) \<Rightarrow>
                            ((None, Some (Wrapped err ''error creating bucket %q'')),
                             deleteOBCResourceLogError env p [] (logf LvlError ''error creating bucket %q'' s3))
                        | (None, s3) \<Rightarrow>
                            (let singleBucketQuota = 1
                             in case call_ModifyUser env (cephUserName p) singleBucketQuota s3 of
                                  (Some err, s4) \<Rightarrow>
                                    ((None, Some err), deleteOBCResourceLogError env p (bucketName p) s4)
                                | (None, s4) \<Rightarrow>
                                    (case setAdditionalSettings env options p
                                            (logf LvlInfo ''set user %q bucket max to %d'' s4) of
                                       (Some err, s5) \<Rightarrow>
                                         ((None, Some err), deleteOBCResourceLogError env p (bucketName p) s5)
                                     | (None, s5) \<Rightarrow> ((Some (composeObjectBucket env p), None), s5)))))))"

text \<open>
  The tail of \<open>Grant\<close> from the policy statement on. \<open>policy\<close> is what \<open>GetBucketPolicy\<close>
  returned (nil when there is none).
\<close>

definition Grant_policy ::
  "env \<Rightarrow> bucket_options \<Rightarrow> provisioner \<Rightarrow> s3_agent \<Rightarrow> bucket_policy option \<Rightarrow> state
     \<Rightarrow> (object_bucket option \<times> error option) \<times> state" where
  "Grant_policy env options p s3svc policy s =
     (let statement =
            Actions (AllowedActions env)
              (Allows (ForSubResources (bucketName p) (ForResources (bucketName p)
                 (ForPrincipals (cephUserName p) (WithSID (cephUserName p) NewPolicyStatement)))));
          policy1 = (case policy of
                       None \<Rightarrow> NewBucketPolicy env statement
                     | Some pol \<Rightarrow> ModifyBucketPolicy env pol statement)
      in case call_PutBucketPolicy env s3svc (bucketName p) policy1 s of
           (perr, s1) \<Rightarrow>
             (let s2 = logf LvlInfo ''PutBucketPolicy output: %v'' s1
              in case perr of
                   Some err \<Rightarrow> ((None, Some err), deleteOBCResourceLogError env p [] s2)
                 | None \<Rightarrow>
                     (case setAdditionalSettings env options p s2 of
                        (Some err, s3) \<Rightarrow> ((None, Some err), deleteOBCResourceLogError env p [] s3)
                      | (None, s3) \<Rightarrow> ((Some (composeObjectBucket env p), None), s3))))"

definition Grant ::
  "env \<Rightarrow> bucket_options \<Rightarrow> provisioner \<Rightarrow> state \<Rightarrow> (object_bucket option \<times> error option) \<times> state" where
  "Grant env options p0 s0 =
     (case initializeCreateOrGrant env options p0 (logf LvlDebug ''Grant event for OB options: %+v'' s0) of
        (Some err, p1, s1) \<Rightarrow> ((None, Some err), s1)
      | (None, p1, s1) \<Rightarrow>
          (case call_bucketExists env p1 (bucketName p1)
                  (logf LvlInfo ''Checking for existing bucket %q''
                     (logf LvlInfo ''Grant: allowing access to bucket %q for OBC %q'' s1)) of
             ((exists, berr), s2) \<Rightarrow>
               if \<not> exists then ((None, Wrapf berr ''bucket %s does not exist''), s2)
               else (case call_createCephUser env [] p1 s2 of
                       (Inl err, p2, s3) \<Rightarrow> ((None, Some err), s3)
                     | (Inr (accKey, secKey), p2, s3) \<Rightarrow>
                         (let p = p2\<lparr>accessKeyID := accKey, secretAccessKey := secKey\<rparr>;
                              restrictBucketCreation = - 1
                          in case call_ModifyUser env (cephUserName p) restrictBucketCreation s3 of
                               (Some err, s4) \<Rightarrow> ((None, Some err), deleteOBCResourceLogError env p [] s4)
                             | (None, s4) \<Rightarrow>
                                 (case call_GetBucketInfo env (bucketName p) s4 of
                                    (Inl err, s5) \<Rightarrow>
                                      ((None, Some (Wrapped err ''failed to get bucket %q stats'')),
                                       deleteOBCResourceLogError env p [] s5)
                                  | (Inr stats, s5) \<Rightarrow>
                                      (case call_GetUser env (bkt_owner stats) s5 of
                                         (Inl err, s6) \<Rightarrow>
                                           ((None, Some (Wrapped err ''failed to get user %q'')),
                                            deleteOBCResourceLogError env p [] s6)
                                       | (Inr objectUser, s6) \<Rightarrow>
                                           (case user_keys objectUser of
                                              [] \<Rightarrow> ((None, Some (Panic ''index out of range'')), s6)
                                            | k # ks \<Rightarrow>
                                                (case new_agent env (key_access k) (key_secret k) p of
                                                   Inl err \<Rightarrow>
                                                     ((None, Some err), deleteOBCResourceLogError env p [] s6)
                                                 | Inr s3svc \<Rightarrow>
                                                     (case call_GetBucketPolicy env s3svc (bucketName p) s6 of
                                                        ((policy, Some (AwsError code)), s7) \<Rightarrow>
                                                          if code \<noteq> ''NoSuchBucketPolicy''
                                                          then ((None, Some (AwsError code)),
                                                                deleteOBCResourceLogError env p [] s7)
                                                          else Grant_policy env options p s3svc policy s7
                                                      | ((policy, gerr), s7) \<Rightarrow>
                                                          Grant_policy env options p s3svc policy s7)))))))))"

definition Delete :: "env \<Rightarrow> object_bucket \<Rightarrow> provisioner \<Rightarrow> state \<Rightarrow> error option \<times> state" where
  "Delete env ob p0 s0 =
     (case initializeDeleteOrRevoke env ob p0 of
        (Some err, p) \<Rightarrow> (Some err, logf LvlDebug ''Delete event for OB: %+v'' s0)
      | (None, p) \<Rightarrow>
          (case call_deleteOBCResource env p (bucketName p)
                  (logf LvlInfo ''Delete: deleting bucket %q for OB %q''
                     (logf LvlDebug ''Delete event for OB: %+v'' s0)) of
             (Some err, s1) \<Rightarrow> (Some (Wrapped err ''failed to delete OBCResource bucket %q''), s1)
           | (None, s1) \<Rightarrow> (None, s1)))"

text \<open>
  The branch of \<open>Revoke\<close> that is entered once the bucket's policy has been read
  (\<open>policy\<close> is nil when the bucket has none): the deny statement for an owner, the drop
  of the principal's statements and the deletion of the user otherwise.
\<close>

definition Revoke_policy ::
  "env \<Rightarrow> provisioner \<Rightarrow> admin_bucket \<Rightarrow> s3_agent \<Rightarrow> bucket_policy option \<Rightarrow> state \<Rightarrow> error option \<times> state" where
  "Revoke_policy env p bucket s3svc policy s =
     (if bkt_owner bucket = cephUserName p
      then (let statement =
                  Actions (AllowedActions env)
                    (Denies (ForSubResources (bucketName p) (ForResources (bucketName p)
                       (ForPrincipals (cephUserName p) (WithSID (cephUserName p) NewPolicyStatement)))));
                policy1 = (case policy of
                             None \<Rightarrow> NewBucketPolicy env statement
                           | Some pol \<Rightarrow> ModifyBucketPolicy env pol statement)
            in case call_PutBucketPolicy env s3svc (bucketName p) policy1 s of
                 (Some err, s1) \<Rightarrow>
                   (Some (Wrapped err ''failed to update policy''), logf LvlInfo ''PutBucketPolicy output: %v'' s1)
               | (None, s1) \<Rightarrow> (None, logf LvlInfo ''PutBucketPolicy output: %v'' s1))
      else (case policy of
              Some pol \<Rightarrow>
                (case call_PutBucketPolicy env s3svc (bucketName p)
                        (DropPolicyStatements env pol (cephUserName p)) s of
                   (Some err, s1) \<Rightarrow> (Some err, s1)
                 | (None, s1) \<Rightarrow>
                     (None, deleteOBCResourceLogError env p []
                              (logf LvlInfo ''principal %q ejected from bucket %q policy'' s1)))
            | None \<Rightarrow> (None, deleteOBCResourceLogError env p [] s)))"

definition Revoke :: "env \<Rightarrow> object_bucket \<Rightarrow> provisioner \<Rightarrow> state \<Rightarrow> error option \<times> state" where
  "Revoke env ob p0 s0 =
     (case initializeDeleteOrRevoke env ob p0 of
        (Some err, p) \<Rightarrow> (Some err, logf LvlDebug ''Revoke event for OB: %+v'' s0)
      | (None, p) \<Rightarrow>
          (case call_GetBucketInfo env (bucketName p)
                  (logf LvlInfo ''Revoke: denying access to bucket %q for OB %q''
                     (logf LvlDebug ''Revoke event for OB: %+v'' s0)) of
             (Inl err, s1) \<Rightarrow> (None, deleteOBCResourceLogError env p [] (logf LvlError ''%v'' s1))
           | (Inr bucket, s1) \<Rightarrow>
               if bkt_owner bucket = [] then (Some (ErrorMsg ''failed to find bucket %q owner''), s1)
               else (case call_GetUser env (bkt_owner bucket) s1 of
                       (Inl err, s2) \<Rightarrow> if errors_Is err ErrNoSuchUser then (None, s2) else (Some err, s2)
                     | (Inr user, s2) \<Rightarrow>
                         (case user_keys user of
                            [] \<Rightarrow> (Some (Panic ''index out of range''), s2)
                          | k # ks \<Rightarrow>
                              (case new_agent env (key_access k) (key_secret k) p of
                                 Inl err \<Rightarrow> (Some err, s2)
                               | Inr s3svc \<Rightarrow>
                                   (case call_GetBucketPolicy env s3svc (bucketName p) s2 of
                                      ((policy, None), s3) \<Rightarrow> Revoke_policy env p bucket s3svc policy s3
                                    | ((policy, Some (AwsError code)), s3) \<Rightarrow>
                                        if code = ''NoSuchBucketPolicy''
                                        then Revoke_policy env p bucket s3svc None
                                               (logf LvlError
                                                  ''no bucket policy for bucket %q, so no need to drop policy'' s3)
                                        else (Some (AwsError code),
                                              logf LvlError ''error getting policy for bucket %q. %v'' s3)
                                    | ((policy, Some err), s3) \<Rightarrow>
                                        (Some err, logf LvlError ''error getting policy for bucket %q. %v'' s3)))))))"

definition Update :: "env \<Rightarrow> object_bucket \<Rightarrow> provisioner \<Rightarrow> state \<Rightarrow> error option \<times> state" where
  "Update env ob p0 s0 =
     (case initializeDeleteOrRevoke env ob p0 of
        (Some err, p) \<Rightarrow> (Some err, logf LvlDebug ''Update event for OB: %+v'' s0)
      | (None, p) \<Rightarrow> updateAdditionalSettings env ob p (logf LvlDebug ''Update event for OB: %+v'' s0))"

section \<open>Reading the record of calls\<close>

text \<open>The calls an operation added to the record it started from.\<close>

definition calls_since :: "state \<Rightarrow> state \<Rightarrow> call list" where
  "calls_since s s' = drop (length (calls s)) (calls s')"

text \<open>The calls that delete a user's account, and the calls that write a bucket policy.\<close>

fun is_delete_call :: "call \<Rightarrow> bool" where
  "is_delete_call (DeleteOBCResource u b) = True"
| "is_delete_call c = False"

fun is_policy_write :: "call \<Rightarrow> bool" where
  "is_policy_write (PutBucketPolicy b pol) = True"
| "is_policy_write c = False"

text \<open>
  The statement \<open>Revoke\<close> builds for an owner: the builder chain of the source ending in
  \<open>Denies\<close>, written out as the value it yields.
\<close>

definition deny_statement :: "env \<Rightarrow> provisioner \<Rightarrow> policy_statement" where
  "deny_statement env p =
     \<lparr>st_sid = cephUserName p, st_principals = [cephUserName p],
      st_resources = [BucketResource (bucketName p), SubResources (bucketName p)],
      st_effect = EffectDeny, st_actions = AllowedActions env\<rparr>"

section \<open>A concrete object store\<close>

text \<open>
  An environment in which every collaborator succeeds: a storage class that names the
  object store \<open>my-store\<close>, a bucket \<open>b1\<close> owned by \<open>owner\<close> with no policy yet, users with
  one key pair and an enabled quota of 100 objects and 1024 bytes. The examples below
  change one answer at a time.
\<close>

definition example_sc :: storage_class where
  "example_sc = \<lparr>sc_parameters = [''objectStoreName'' \<mapsto> ''my-store'', ''objectStoreNamespace'' \<mapsto> ''rook-ceph'']\<rparr>"

definition example_store :: object_store where
  "example_store = \<lparr>os_namespace = ''rook-ceph'', os_secure_port = 443, os_GetPort = (80, None), os_IsTLSEnabled = False\<rparr>"

definition example_user :: "string \<Rightarrow> admin_user" where
  "example_user uid =
     \<lparr>user_id = uid, user_keys = [\<lparr>key_access = ''AK-'' @ uid, key_secret = ''SK-'' @ uid\<rparr>],
      user_quota = \<lparr>qs_uid = uid, qs_enabled = Some True, qs_max_objects = Some 100, qs_max_size = Some 1024\<rparr>\<rparr>"

definition example_env :: env where
  "example_env =
     \<lparr>OperatorSettingConfigMapName = ''rook-ceph-operator-config'',
      GetOperatorSetting = (\<lambda>cm k d. (d, None)),
      YamlToTolerations = (\<lambda>raw. ([], Some (ErrorMsg ''yaml: unmarshal error''))),
      OperatorNotInitializedMessage = ''ceph cluster is not initialized yet'',
      error_Contains = (\<lambda>e m. False),
      LevelAtDebug = False,
      key_objectStoreName = ''objectStoreName'',
      key_objectStoreEndpoint = ''endpoint'',
      key_cephUser = ''cephUser'',
      getObjectStoreName = (\<lambda>sc. map_get (sc_parameters sc) ''objectStoreName''),
      getObjectStoreNameSpace = (\<lambda>sc. map_get (sc_parameters sc) ''objectStoreNamespace''),
      getObjectStoreEndpoint_sc = (\<lambda>sc. map_get (sc_parameters sc) ''endpoint''),
      isStaticBucket = (\<lambda>sc. (map_get (sc_parameters sc) ''bucketName'', map_get (sc_parameters sc) ''bucketName'' \<noteq> [])),
      getBucketName = ob_bucket_name,
      getCephUser = (\<lambda>ob. map_get (ob_additional_state ob) ''cephUser''),
      MaxObjectQuota = (\<lambda>m. map_get m ''maxObjects''),
      MaxSizeQuota = (\<lambda>m. map_get m ''maxSize''),
      getStorageClassWithBackoff = (\<lambda>n. Inr example_sc),
      getObjectStore = (\<lambda>p. Inr example_store),
      getCephCluster = (\<lambda>p. (Some ''cluster-spec'', None)),
      createCephUser = (\<lambda>cs p u. (''obc-user'', Inr (''AK-obc-user'', ''SK-obc-user''))),
      bucketExists = (\<lambda>cs p b. (True, None)),
      deleteOBCResource = (\<lambda>cs p b. None),
      NewContext = (\<lambda>n. \<lparr>oc_name = n, oc_CephClusterSpec = None\<rparr>),
      NewMultisiteContext = (\<lambda>st. (Some \<lparr>oc_name = ''my-store'', oc_CephClusterSpec = None\<rparr>, None)),
      BuildDomainName = (\<lambda>n ns. n @ ''.'' @ ns @ ''.svc''),
      BuildDNSEndpoint = (\<lambda>d port tls. d),
      GetIPFromEndpoint = (\<lambda>e. e),
      GetPortFromEndpoint = (\<lambda>e. 80),
      GetTlsCaCert = (\<lambda>ctx st. (None, None)),
      GetAdminOPSUserCredentials = (\<lambda>ctx st. Inr (''AK-admin'', ''SK-admin'')),
      admin_New = (\<lambda>e a k d c. (Some \<lparr>api_endpoint = e, api_access_key = a, api_secret_key = k\<rparr>, None)),
      NewS3Agent = (\<lambda>a k e d c. None),
      AllowedActions = [''s3:GetObject'', ''s3:PutObject''],
      NewBucketPolicy = (\<lambda>st. [st]),
      ModifyBucketPolicy = (\<lambda>pol st. pol @ [st]),
      DropPolicyStatements = (\<lambda>pol u. filter (\<lambda>st. st_principals st \<noteq> [u]) pol),
      adm_ModifyUser = (\<lambda>cs uid n. None),
      adm_GetUser = (\<lambda>cs uid. Inr (example_user uid)),
      adm_GetBucketInfo = (\<lambda>cs b. Inr \<lparr>bkt_name = b, bkt_owner = ''owner''\<rparr>),
      adm_SetUserQuota = (\<lambda>cs q. None),
      s3_CreateBucket = (\<lambda>cs a b. None),
      s3_GetBucketPolicy = (\<lambda>cs a b. (None, Some (AwsError ''NoSuchBucketPolicy''))),
      s3_PutBucketPolicy = (\<lambda>cs a b pol. None)\<rparr>"

definition example_p0 :: provisioner where
  "example_p0 =
     \<lparr>bucketName = [], storeDomainName = [], storePort = 0, region = [], cephUserName = [],
      accessKeyID = [], secretAccessKey = [], objectStoreName = [], endpoint = [],
      additionalConfigData = Map.empty, tlsCert = None, objectContext = None, adminOpsClient = None\<rparr>"

definition example_s0 :: state where
  "example_s0 = \<lparr>calls = [], logs = []\<rparr>"

definition example_ob :: "string_map \<Rightarrow> object_bucket" where
  "example_ob cfg =
     \<lparr>ob_name = ''obc-default-claim'', ob_storage_class_name = ''rook-ceph-bucket'',
      ob_bucket_host = ''my-store.rook-ceph.svc'', ob_bucket_port = 80, ob_bucket_name = ''b1'',
      ob_region = [], ob_additional_config_data = cfg,
      ob_access_key_id = ''AK-obc-user'', ob_secret_access_key = ''SK-obc-user'',
      ob_additional_state = [''cephUser'' \<mapsto> ''obc-user'']\<rparr>"

definition example_options :: bucket_options where
  "example_options =
     \<lparr>opt_bucket_name = ''b1'',
      opt_claim = \<lparr>obc_name = ''claim'', obc_namespace = ''default'',
                   obc_storage_class_name = ''rook-ceph-bucket'', obc_additional_config = Map.empty\<rparr>\<rparr>"

text \<open>The provisioner's state once \<open>initializeDeleteOrRevoke\<close> has run in this environment.\<close>

definition example_p :: provisioner where
  "example_p =
     \<lparr>bucketName = ''b1'', storeDomainName = ''my-store.rook-ceph.svc'', storePort = 80, region = [],
      cephUserName = ''obc-user'', accessKeyID = [], secretAccessKey = [], objectStoreName = ''my-store'',
      endpoint = [], additionalConfigData = Map.empty, tlsCert = Some [],
      objectContext = Some \<lparr>oc_name = ''my-store'', oc_CephClusterSpec = Some ''cluster-spec''\<rparr>,
      adminOpsClient = Some \<lparr>api_endpoint = ''my-store.rook-ceph.svc'', api_access_key = ''AK-admin'',
                              api_secret_key = ''SK-admin''\<rparr>\<rparr>"

text \<open>One answer changed at a time.\<close>

definition env_bucket_missing :: env where
  "env_bucket_missing = example_env\<lparr>adm_GetBucketInfo := (\<lambda>cs b. Inl (ErrorMsg ''NoSuchBucket''))\<rparr>"

definition env_owner_gone :: env where
  "env_owner_gone =
     example_env\<lparr>adm_GetUser := (\<lambda>cs uid. Inl (Wrapped ErrNoSuchUser ''GetUser: the user does not exist''))\<rparr>"

definition example_tolerations :: "toleration list" where
  "example_tolerations =
     [\<lparr>tol_key = [], tol_operator = ''Equal'', tol_value = ''v1'', tol_effect = ''NoSchedule'', tol_seconds = None\<rparr>,
      \<lparr>tol_key = ''k2'', tol_operator = ''Exists'', tol_value = ''v2'', tol_effect = [], tol_seconds = None\<rparr>,
      \<lparr>tol_key = ''k3'', tol_operator = ''Equal'', tol_value = ''v3'', tol_effect = [], tol_seconds = Some 30\<rparr>]"

definition env_tolerations :: env where
  "env_tolerations =
     example_env\<lparr>GetOperatorSetting := (\<lambda>cm k d. (''- key: ...'', None)),
                  YamlToTolerations := (\<lambda>raw. (example_tolerations, None))\<rparr>"

definition env_principal_owner :: env where
  "env_principal_owner =
     example_env\<lparr>adm_GetBucketInfo := (\<lambda>cs b. Inr \<lparr>bkt_name = b, bkt_owner = ''obc-user''\<rparr>)\<rparr>"

definition env_principal_owner_gone :: env where
  "env_principal_owner_gone =
     example_env\<lparr>adm_GetBucketInfo := (\<lambda>cs b. Inr \<lparr>bkt_name = b, bkt_owner = ''obc-user''\<rparr>),
                  adm_GetUser := (\<lambda>cs uid. Inl ErrNoSuchUser)\<rparr>"

definition env_modify_fails :: env where
  "env_modify_fails =
     example_env\<lparr>adm_ModifyUser := (\<lambda>cs uid n. Some (ErrorMsg ''ModifyUser failed'')),
                  deleteOBCResource := (\<lambda>cs p b. Some (ErrorMsg ''RemoveUser failed''))\<rparr>"

definition env_bucket_absent :: env where
  "env_bucket_absent = example_env\<lparr>bucketExists := (\<lambda>cs p b. (False, None))\<rparr>"

definition example_ob_quota :: object_bucket where
  "example_ob_quota = example_ob [''maxObjects'' \<mapsto> ''100'', ''maxSize'' \<mapsto> ''10Gi'']"

definition example_ob_unparseable :: object_bucket where
  "example_ob_unparseable = example_ob [''maxSize'' \<mapsto> ''abc'']"

section \<open>Basic facts\<close>

lemma calls_logf [simp]: "calls (logf l m s) = calls s"
  by (simp add: logf_def)

lemma logs_logf [simp]: "logs (logf l m s) = logs s @ [(l, m)]"
  by (simp add: logf_def)

lemma calls_record_call [simp]: "calls (record_call c s) = calls s @ [c]"
  by (simp add: record_call_def)

lemma logs_record_call [simp]: "logs (record_call c s) = logs s"
  by (simp add: record_call_def)

lemma calls_since_append [simp]: "calls s' = calls s @ cs \<Longrightarrow> calls_since s s' = cs"
  by (simp add: calls_since_def)

lemma calls_deleteOBCResourceLogError [simp]:
  "calls (deleteOBCResourceLogError env p b s) = calls s @ [DeleteOBCResource (cephUserName p) b]"
  by (simp add: deleteOBCResourceLogError_def call_deleteOBCResource_def split: option.splits)

text \<open>The definitions that evaluate \<open>initializeDeleteOrRevoke\<close> in the concrete object store.\<close>

lemmas example_init_defs =
  initializeDeleteOrRevoke_def example_env_def example_ob_def example_p0_def example_p_def
  setBucketName_def setEndpoint_def setObjectContext_def populateDomainAndPort_def
  setObjectStoreDomainName_def setObjectStorePort_def setTlsCaCert_def setAdminOpsAPIClient_def
  map_get_def example_sc_def example_store_def

lemmas example_create_defs =
  initializeCreateOrGrant_def example_env_def example_options_def example_p0_def example_p_def
  setBucketName_def setEndpoint_def setObjectContext_def populateDomainAndPort_def
  setObjectStoreDomainName_def setObjectStorePort_def setTlsCaCert_def setAdminOpsAPIClient_def
  setObjectStoreName_def setRegion_def setAdditionalConfigData_def
  map_get_def example_sc_def example_store_def Let_def

section \<open>Tolerations\<close>

lemma normalizeTolerations_length: "length (normalizeTolerations ts) = length ts"
  by (induction ts) (simp_all add: Let_def)

lemma normalizeTolerations_normal:
  "t \<in> set (normalizeTolerations ts) \<Longrightarrow>
     (tol_key t = [] \<longrightarrow> tol_operator t = TolerationOpExists)
     \<and> (tol_operator t = TolerationOpExists \<longrightarrow> tol_value t = [])"
  by (induction ts) (auto simp: Let_def split: if_splits)

text \<open>
  C10. Let \<open>raw\<close> and \<open>e1\<close> be what the operator setting reads as, and \<open>parsed\<close> and \<open>e2\<close> what
  the YAML parser makes of \<open>raw\<close>. When the setting cannot be read, is empty (which is
  also how a missing setting reads, the default passed being the empty string) or does
  not parse, \<open>getToleration\<close> returns the caller's default tolerations unchanged. When it
  parses, the returned list has one toleration per parsed one, every toleration with an
  empty key has the operator \<open>Exists\<close>, and every toleration with the operator \<open>Exists\<close> has
  an empty value.
\<close>

theorem getToleration_normalized:
  assumes "GetOperatorSetting env (OperatorSettingConfigMapName env) name [] = (raw, e1)"
    and "YamlToTolerations env raw = (parsed, e2)"
  shows "(e1 \<noteq> None \<or> raw = [] \<or> e2 \<noteq> None \<longrightarrow> fst (getToleration env name dflt s) = dflt) \<and>
         (e1 = None \<and> raw \<noteq> [] \<and> e2 = None \<longrightarrow>
            length (fst (getToleration env name dflt s)) = length parsed
            \<and> (\<forall>t \<in> set (fst (getToleration env name dflt s)).
                  (tol_key t = [] \<longrightarrow> tol_operator t = TolerationOpExists)
                  \<and> (tol_operator t = TolerationOpExists \<longrightarrow> tol_value t = [])))"
proof (intro conjI impI)
  assume "e1 \<noteq> None \<or> raw = [] \<or> e2 \<noteq> None"
  with assms show "fst (getToleration env name dflt s) = dflt"
    by (auto simp: getToleration_def split: option.splits)
next
  assume ok: "e1 = None \<and> raw \<noteq> [] \<and> e2 = None"
  with assms have eq: "fst (getToleration env name dflt s) = normalizeTolerations parsed"
    by (simp add: getToleration_def)
  show "length (fst (getToleration env name dflt s)) = length parsed"
    by (simp add: eq normalizeTolerations_length)
  show "\<forall>t \<in> set (fst (getToleration env name dflt s)).
          (tol_key t = [] \<longrightarrow> tol_operator t = TolerationOpExists)
          \<and> (tol_operator t = TolerationOpExists \<longrightarrow> tol_value t = [])"
    unfolding eq using normalizeTolerations_normal by blast
qed

theorem getToleration_normalized_witness:
  "GetOperatorSetting env_tolerations (OperatorSettingConfigMapName env_tolerations) ''CSI_PLUGIN_TOLERATIONS'' []
     = (''- key: ...'', None)
   \<and> YamlToTolerations env_tolerations ''- key: ...'' = (example_tolerations, None)
   \<and> map tol_operator (fst (getToleration env_tolerations ''CSI_PLUGIN_TOLERATIONS'' [] example_s0))
       = [''Exists'', ''Exists'', ''Equal'']
   \<and> map tol_value (fst (getToleration env_tolerations ''CSI_PLUGIN_TOLERATIONS'' [] example_s0))
       = [[], [], ''v3'']
   \<and> length (fst (getToleration env_tolerations ''CSI_PLUGIN_TOLERATIONS'' [] example_s0)) = 3
   \<and> list_all (\<lambda>t. (tol_key t \<noteq> [] \<or> tol_operator t = TolerationOpExists)
                   \<and> (tol_operator t \<noteq> TolerationOpExists \<or> tol_value t = []))
        (fst (getToleration env_tolerations ''CSI_PLUGIN_TOLERATIONS'' [] example_s0))"
proof -
  have a: "GetOperatorSetting env_tolerations (OperatorSettingConfigMapName env_tolerations)
             ''CSI_PLUGIN_TOLERATIONS'' [] = (''- key: ...'', None)"
    by (simp add: env_tolerations_def)
  have b: "YamlToTolerations env_tolerations ''- key: ...'' = (example_tolerations, None)"
    by (simp add: env_tolerations_def)
  have c: "fst (getToleration env_tolerations ''CSI_PLUGIN_TOLERATIONS'' [] example_s0)
             = normalizeTolerations example_tolerations"
    by (simp add: getToleration_def a b)
  from getToleration_normalized [OF a b, of "[]" example_s0] a b show ?thesis
    by (simp add: c example_tolerations_def TolerationOpExists_def list_all_iff)
qed

section \<open>Revoke\<close>

text \<open>
  C5. When \<open>Revoke\<close> has resolved its state and the bucket's info cannot be fetched
  (\<open>GetBucketInfo\<close> answers with an error, whichever it is), the only calls \<open>Revoke\<close> makes
  are that lookup and the deletion of the user being revoked: no owner lookup, no policy
  read and no policy write. It returns nil, also when the deletion fails.
\<close>

theorem Revoke_bucket_info_unavailable:
  assumes "initializeDeleteOrRevoke env ob p0 = (None, p)"
    and "adm_GetBucketInfo env (calls s0) (bucketName p) = Inl e"
  shows "fst (Revoke env ob p0 s0) = None \<and>
         calls (snd (Revoke env ob p0 s0)) =
           calls s0 @ [GetBucketInfo (bucketName p), DeleteOBCResource (cephUserName p) []]"
  using assms by (simp add: Revoke_def call_GetBucketInfo_def)

theorem Revoke_bucket_info_unavailable_witness:
  "initializeDeleteOrRevoke env_bucket_missing (example_ob Map.empty) example_p0 = (None, example_p)
   \<and> adm_GetBucketInfo env_bucket_missing (calls example_s0) (bucketName example_p) = Inl (ErrorMsg ''NoSuchBucket'')
   \<and> fst (Revoke env_bucket_missing (example_ob Map.empty) example_p0 example_s0) = None
   \<and> calls (snd (Revoke env_bucket_missing (example_ob Map.empty) example_p0 example_s0)) =
        [GetBucketInfo ''b1'', DeleteOBCResource ''obc-user'' []]"
proof -
  have init: "initializeDeleteOrRevoke env_bucket_missing (example_ob Map.empty) example_p0 = (None, example_p)"
    by (simp add: env_bucket_missing_def example_init_defs)
  have info: "adm_GetBucketInfo env_bucket_missing (calls example_s0) (bucketName example_p)
                = Inl (ErrorMsg ''NoSuchBucket'')"
    by (simp add: env_bucket_missing_def example_env_def)
  from Revoke_bucket_info_unavailable [OF init info] init info show ?thesis
    by (simp add: example_p_def example_s0_def)
qed

text \<open>
  C6. When the bucket's info is fetched and names an owner, and the lookup of that owner
  fails with an error that is \<open>admin.ErrNoSuchUser\<close> (or wraps it), \<open>Revoke\<close> returns nil at
  once: the two lookups are the only calls, so no policy is read or written and no user
  is deleted.
\<close>

theorem Revoke_owner_account_gone:
  assumes "initializeDeleteOrRevoke env ob p0 = (None, p)"
    and "adm_GetBucketInfo env (calls s0) (bucketName p) = Inr bucket"
    and "bkt_owner bucket \<noteq> []"
    and "adm_GetUser env (calls s0 @ [GetBucketInfo (bucketName p)]) (bkt_owner bucket) = Inl e"
    and "errors_Is e ErrNoSuchUser"
  shows "fst (Revoke env ob p0 s0) = None \<and>
         calls (snd (Revoke env ob p0 s0)) =
           calls s0 @ [GetBucketInfo (bucketName p), GetUser (bkt_owner bucket)]"
  using assms by (simp add: Revoke_def call_GetBucketInfo_def call_GetUser_def)

theorem Revoke_owner_account_gone_witness:
  "initializeDeleteOrRevoke env_owner_gone (example_ob Map.empty) example_p0 = (None, example_p)
   \<and> adm_GetBucketInfo env_owner_gone (calls example_s0) (bucketName example_p)
       = Inr \<lparr>bkt_name = ''b1'', bkt_owner = ''owner''\<rparr>
   \<and> adm_GetUser env_owner_gone (calls example_s0 @ [GetBucketInfo (bucketName example_p)]) ''owner''
       = Inl (Wrapped ErrNoSuchUser ''GetUser: the user does not exist'')
   \<and> errors_Is (Wrapped ErrNoSuchUser ''GetUser: the user does not exist'') ErrNoSuchUser
   \<and> fst (Revoke env_owner_gone (example_ob Map.empty) example_p0 example_s0) = None
   \<and> calls (snd (Revoke env_owner_gone (example_ob Map.empty) example_p0 example_s0)) =
        [GetBucketInfo ''b1'', GetUser ''owner'']"
proof -
  have init: "initializeDeleteOrRevoke env_owner_gone (example_ob Map.empty) example_p0 = (None, example_p)"
    by (simp add: env_owner_gone_def example_init_defs)
  have info: "adm_GetBucketInfo env_owner_gone (calls example_s0) (bucketName example_p)
                = Inr \<lparr>bkt_name = ''b1'', bkt_owner = ''owner''\<rparr>"
    by (simp add: env_owner_gone_def example_env_def example_p_def)
  have owner: "bkt_owner \<lparr>bkt_name = ''b1'', bkt_owner = ''owner''\<rparr> \<noteq> []"
    by simp
  have user: "adm_GetUser env_owner_gone (calls example_s0 @ [GetBucketInfo (bucketName example_p)])
                (bkt_owner \<lparr>bkt_name = ''b1'', bkt_owner = ''owner''\<rparr>)
                = Inl (Wrapped ErrNoSuchUser ''GetUser: the user does not exist'')"
    by (simp add: env_owner_gone_def example_env_def)
  have gone: "errors_Is (Wrapped ErrNoSuchUser ''GetUser: the user does not exist'') ErrNoSuchUser"
    by simp
  from Revoke_owner_account_gone [OF init info owner user gone] init info user gone show ?thesis
    by (simp add: example_p_def example_s0_def)
qed

section \<open>Quota updates\<close>

text \<open>
  C2. Let \<open>maxObjects\<close> and \<open>maxSize\<close> be the requested strings, each empty or parsing to a
  negative number, and let the user's stored quota be enabled. Then
  \<open>updateAdditionalSettings\<close> makes two calls, the lookup of the user and one quota
  update, which carries \<open>enabled = false\<close> and neither a max-objects nor a max-size field;
  it returns what that update returned (wrapped when it is an error).
\<close>

theorem updateAdditionalSettings_disables_quota:
  assumes "MaxObjectQuota env (ob_additional_config_data ob) = maxObjects"
    and "MaxSizeQuota env (ob_additional_config_data ob) = maxSize"
    and "maxObjects = [] \<or> (\<exists>v. Atoi maxObjects = Inr v \<and> v < 0)"
    and "maxSize = [] \<or> (\<exists>v. maxSizeToInt64 maxSize = Inr v \<and> v < 0)"
    and "adm_GetUser env (calls s) (map_get (ob_additional_state ob) (key_cephUser env)) = Inr objectUser"
    and "qs_enabled (user_quota objectUser) = Some True"
  shows "calls (snd (updateAdditionalSettings env ob p s)) =
           calls s @ [GetUser (map_get (ob_additional_state ob) (key_cephUser env)),
                      SetUserQuota \<lparr>qs_uid = cephUserName p, qs_enabled = Some False,
                                    qs_max_objects = None, qs_max_size = None\<rparr>]
         \<and> fst (updateAdditionalSettings env ob p s) =
             Wrapf (adm_SetUserQuota env
                      (calls s @ [GetUser (map_get (ob_additional_state ob) (key_cephUser env))])
                      \<lparr>qs_uid = cephUserName p, qs_enabled = Some False,
                       qs_max_objects = None, qs_max_size = None\<rparr>)
                   ''failed to disable quota to user %q''"
  using assms
  by (auto simp: updateAdditionalSettings_def updateAdditionalSettings_quota_def call_GetUser_def
        call_SetUserQuota_def Let_def split: option.splits)

theorem updateAdditionalSettings_disables_quota_witness:
  "MaxObjectQuota example_env (ob_additional_config_data (example_ob [''maxObjects'' \<mapsto> ''-1''])) = ''-1''
   \<and> MaxSizeQuota example_env (ob_additional_config_data (example_ob [''maxObjects'' \<mapsto> ''-1''])) = []
   \<and> Atoi ''-1'' = Inr (- 1)
   \<and> qs_enabled (user_quota (example_user ''obc-user'')) = Some True
   \<and> fst (updateAdditionalSettings example_env (example_ob [''maxObjects'' \<mapsto> ''-1'']) example_p example_s0) = None
   \<and> calls (snd (updateAdditionalSettings example_env (example_ob [''maxObjects'' \<mapsto> ''-1'']) example_p example_s0)) =
        [GetUser ''obc-user'',
         SetUserQuota \<lparr>qs_uid = ''obc-user'', qs_enabled = Some False,
                       qs_max_objects = None, qs_max_size = None\<rparr>]"
proof -
  have mo: "MaxObjectQuota example_env (ob_additional_config_data (example_ob [''maxObjects'' \<mapsto> ''-1''])) = ''-1''"
    by (simp add: example_env_def example_ob_def map_get_def)
  have ms: "MaxSizeQuota example_env (ob_additional_config_data (example_ob [''maxObjects'' \<mapsto> ''-1''])) = []"
    by (simp add: example_env_def example_ob_def map_get_def)
  have at: "Atoi ''-1'' = Inr (- 1)"
    by (simp add: Atoi_def split_sign_def is_digit_def in_int64_def)
  have c1: "''-1'' = [] \<or> (\<exists>v. Atoi ''-1'' = Inr v \<and> v < 0)"
    using at by simp
  have c2: "([]::string) = [] \<or> (\<exists>v. maxSizeToInt64 [] = Inr v \<and> v < 0)"
    by simp
  have gu: "adm_GetUser example_env (calls example_s0)
              (map_get (ob_additional_state (example_ob [''maxObjects'' \<mapsto> ''-1''])) (key_cephUser example_env))
            = Inr (example_user ''obc-user'')"
    by (simp add: example_env_def example_ob_def map_get_def)
  have en: "qs_enabled (user_quota (example_user ''obc-user'')) = Some True"
    by (simp add: example_user_def)
  from updateAdditionalSettings_disables_quota [OF mo ms c1 c2 gu en, of example_p] mo ms at en
  show ?thesis
    by (simp add: example_env_def example_ob_def map_get_def example_p_def example_s0_def)
qed

lemma quota_tail_calls:
  "calls (snd (updateAdditionalSettings_quota env p mo moi ms msi u s1)) = calls s1
   \<or> calls (snd (updateAdditionalSettings_quota env p mo moi ms msi u s1)) =
        calls s1 @ [SetUserQuota \<lparr>qs_uid = cephUserName p, qs_enabled = Some False,
                                    qs_max_objects = None, qs_max_size = None\<rparr>]
   \<or> calls (snd (updateAdditionalSettings_quota env p mo moi ms msi u s1)) =
        calls s1 @ [SetUserQuota
           \<lparr>qs_uid = cephUserName p, qs_enabled = Some True,
            qs_max_objects = (if mo \<noteq> [] \<and> Some moi \<noteq> qs_max_objects (user_quota u) then Some moi else None),
            qs_max_size = (if ms \<noteq> [] \<and> Some msi \<noteq> qs_max_size (user_quota u) then Some msi else None)\<rparr>]"
  by (simp add: updateAdditionalSettings_quota_def call_SetUserQuota_def Let_def split: option.split)

lemma example_init:
  "initializeDeleteOrRevoke example_env (example_ob cfg) example_p0 = (None, example_p)"
  by (simp add: example_init_defs)

lemma Atoi_100: "Atoi ''100'' = Inr 100"
  by (simp add: Atoi_def split_sign_def is_digit_def in_int64_def)

lemma maxSize_10Gi: "maxSizeToInt64 ''10Gi'' = Inr 10737418240"
  by (simp add: maxSizeToInt64_def ParseQuantityValue_def split_sign_def is_digit_def
        suffix_multiplier_def in_int64_def)

lemma maxSize_abc: "maxSizeToInt64 ''abc'' = Inl (Wrapped (ErrorMsg ''quantities must match the regular expression'') ''failed to parse quantity'')"
  by (simp add: maxSizeToInt64_def ParseQuantityValue_def split_sign_def is_digit_def)

lemma example_quota_run:
  assumes "calls s = []"
  shows "calls (snd (updateAdditionalSettings example_env example_ob_quota example_p s)) =
           [GetUser ''obc-user'',
            SetUserQuota \<lparr>qs_uid = ''obc-user'', qs_enabled = Some True,
                          qs_max_objects = None, qs_max_size = Some 10737418240\<rparr>]"
proof -
  have mo: "MaxObjectQuota example_env (ob_additional_config_data example_ob_quota) = ''100''"
    by (simp add: example_env_def example_ob_quota_def example_ob_def map_get_def)
  have ms: "MaxSizeQuota example_env (ob_additional_config_data example_ob_quota) = ''10Gi''"
    by (simp add: example_env_def example_ob_quota_def example_ob_def map_get_def)
  have uid: "map_get (ob_additional_state example_ob_quota) (key_cephUser example_env) = ''obc-user''"
    by (simp add: example_env_def example_ob_quota_def example_ob_def map_get_def)
  have gu: "adm_GetUser example_env cs ''obc-user'' = Inr (example_user ''obc-user'')" for cs
    by (simp add: example_env_def)
  have sq: "adm_SetUserQuota example_env cs q = None" for cs q
    by (simp add: example_env_def)
  show ?thesis
    using assms
    by (simp add: updateAdditionalSettings_def updateAdditionalSettings_quota_def Let_def mo ms uid
          Atoi_100 maxSize_10Gi call_GetUser_def call_SetUserQuota_def gu sq example_user_def example_p_def)
qed

text \<open>
  C3. Let the lookup of the user succeed, and take any quota update that
  \<open>updateAdditionalSettings\<close> sends with \<open>enabled = true\<close> (the update of the enabled
  branch; the disabling update carries \<open>enabled = false\<close>). If it carries a max-objects
  field, the requested string is not empty, the field is its parsed value and that value
  differs from the stored max-objects; likewise for max-size. And a requested value that
  parses to the stored one is left out of the update.
\<close>

theorem updateAdditionalSettings_omits_unchanged:
  assumes mo: "MaxObjectQuota env (ob_additional_config_data ob) = maxObjects"
    and ms: "MaxSizeQuota env (ob_additional_config_data ob) = maxSize"
    and gu: "adm_GetUser env (calls s) (map_get (ob_additional_state ob) (key_cephUser env)) = Inr objectUser"
    and mem: "SetUserQuota q \<in> set (calls_since s (snd (updateAdditionalSettings env ob p s)))"
    and en: "qs_enabled q = Some True"
  shows "(\<forall>v. qs_max_objects q = Some v \<longrightarrow>
               maxObjects \<noteq> [] \<and> Atoi maxObjects = Inr v \<and> qs_max_objects (user_quota objectUser) \<noteq> Some v)
       \<and> (\<forall>v. qs_max_size q = Some v \<longrightarrow>
               maxSize \<noteq> [] \<and> maxSizeToInt64 maxSize = Inr v \<and> qs_max_size (user_quota objectUser) \<noteq> Some v)
       \<and> (\<forall>v. Atoi maxObjects = Inr v \<and> qs_max_objects (user_quota objectUser) = Some v \<longrightarrow> qs_max_objects q = None)
       \<and> (\<forall>v. maxSizeToInt64 maxSize = Inr v \<and> qs_max_size (user_quota objectUser) = Some v \<longrightarrow> qs_max_size q = None)"
proof (cases "if maxObjects \<noteq> [] then Atoi maxObjects else Inr 0")
  case (Inl e)
  with mo have "calls (snd (updateAdditionalSettings env ob p s)) = calls s"
    by (simp add: updateAdditionalSettings_def Let_def)
  with mem show ?thesis by (simp add: calls_since_def)
next
  case a: (Inr moi)
  show ?thesis
  proof (cases "if maxSize \<noteq> [] then maxSizeToInt64 maxSize else Inr 0")
    case (Inl e)
    with mo ms a have "calls (snd (updateAdditionalSettings env ob p s)) = calls s"
      by (simp add: updateAdditionalSettings_def Let_def)
    with mem show ?thesis by (simp add: calls_since_def)
  next
    case b: (Inr msi)
    let ?s1 = "record_call (GetUser (map_get (ob_additional_state ob) (key_cephUser env))) s"
    have eq: "snd (updateAdditionalSettings env ob p s) =
                snd (updateAdditionalSettings_quota env p maxObjects moi maxSize msi objectUser ?s1)"
      using mo ms gu a b by (simp add: updateAdditionalSettings_def Let_def call_GetUser_def)
    have q: "q = \<lparr>qs_uid = cephUserName p, qs_enabled = Some True,
            qs_max_objects = (if maxObjects \<noteq> [] \<and> Some moi \<noteq> qs_max_objects (user_quota objectUser) then Some moi else None),
            qs_max_size = (if maxSize \<noteq> [] \<and> Some msi \<noteq> qs_max_size (user_quota objectUser) then Some msi else None)\<rparr>"
      using quota_tail_calls [of env p maxObjects moi maxSize msi objectUser ?s1] mem en
      unfolding eq by (auto simp: calls_since_def)
    have o: "maxObjects \<noteq> [] \<Longrightarrow> Atoi maxObjects = Inr moi" using a by simp
    have z: "maxSize \<noteq> [] \<Longrightarrow> maxSizeToInt64 maxSize = Inr msi" using b by simp
    have o': "Atoi [] \<noteq> Inr v" for v by (simp add: Atoi_def split_sign_def)
    have z': "maxSizeToInt64 [] \<noteq> Inr v" for v
      by (simp add: maxSizeToInt64_def ParseQuantityValue_def split_sign_def)
    show ?thesis
    proof (intro conjI allI impI)
      fix v assume "qs_max_objects q = Some v"
      then show "maxObjects \<noteq> []" "Atoi maxObjects = Inr v" "qs_max_objects (user_quota objectUser) \<noteq> Some v"
        using o by (auto simp: q split: if_splits)
    next
      fix v assume "qs_max_size q = Some v"
      then show "maxSize \<noteq> []" "maxSizeToInt64 maxSize = Inr v" "qs_max_size (user_quota objectUser) \<noteq> Some v"
        using z by (auto simp: q split: if_splits)
    next
      fix v assume "Atoi maxObjects = Inr v \<and> qs_max_objects (user_quota objectUser) = Some v"
      then show "qs_max_objects q = None"
        using o o' by (cases "maxObjects = []") (auto simp: q)
    next
      fix v assume "maxSizeToInt64 maxSize = Inr v \<and> qs_max_size (user_quota objectUser) = Some v"
      then show "qs_max_size q = None"
        using z z' by (cases "maxSize = []") (auto simp: q)
    qed
  qed
qed

theorem updateAdditionalSettings_omits_unchanged_witness:
  "MaxObjectQuota example_env (ob_additional_config_data example_ob_quota) = ''100''
   \<and> MaxSizeQuota example_env (ob_additional_config_data example_ob_quota) = ''10Gi''
   \<and> calls_since example_s0 (snd (updateAdditionalSettings example_env example_ob_quota example_p example_s0)) =
        [GetUser ''obc-user'',
         SetUserQuota \<lparr>qs_uid = ''obc-user'', qs_enabled = Some True,
                       qs_max_objects = None, qs_max_size = Some 10737418240\<rparr>]
   \<and> Atoi ''100'' = Inr 100
   \<and> qs_max_objects (user_quota (example_user ''obc-user'')) = Some 100
   \<and> maxSizeToInt64 ''10Gi'' = Inr 10737418240
   \<and> qs_max_size (user_quota (example_user ''obc-user'')) = Some 1024"
proof -
  let ?q = "\<lparr>qs_uid = ''obc-user'', qs_enabled = Some True,
              qs_max_objects = None, qs_max_size = Some 10737418240\<rparr>"
  have mo: "MaxObjectQuota example_env (ob_additional_config_data example_ob_quota) = ''100''"
    by (simp add: example_env_def example_ob_quota_def example_ob_def map_get_def)
  have ms: "MaxSizeQuota example_env (ob_additional_config_data example_ob_quota) = ''10Gi''"
    by (simp add: example_env_def example_ob_quota_def example_ob_def map_get_def)
  have gu: "adm_GetUser example_env (calls example_s0)
              (map_get (ob_additional_state example_ob_quota) (key_cephUser example_env))
            = Inr (example_user ''obc-user'')"
    by (simp add: example_env_def example_ob_quota_def example_ob_def map_get_def)
  have run: "calls_since example_s0 (snd (updateAdditionalSettings example_env example_ob_quota example_p example_s0))
               = [GetUser ''obc-user'', SetUserQuota ?q]"
    using example_quota_run [of example_s0] by (simp add: calls_since_def example_s0_def)
  have mem: "SetUserQuota ?q \<in> set (calls_since example_s0
               (snd (updateAdditionalSettings example_env example_ob_quota example_p example_s0)))"
    by (simp add: run)
  have en: "qs_enabled ?q = Some True"
    by simp
  from updateAdditionalSettings_omits_unchanged [OF mo ms gu mem en] mo ms run
  show ?thesis
    by (simp add: Atoi_100 maxSize_10Gi example_user_def)
qed

text \<open>
  C7. The max-size parser turns \<open>10Gi\<close> into 10737418240 and fails on \<open>abc\<close>. For every
  requested max-size string that does not parse, \<open>Update\<close> returns an error and makes no
  call at all, so no quota call; and once the state has been resolved the error is a
  parse error: the failed conversion of the max-objects string when that one is not a
  number either (it is read first), the failed parse of the max-size string otherwise.
\<close>

theorem Update_unparseable_maxSize:
  assumes ms: "MaxSizeQuota env (ob_additional_config_data ob) = maxSize"
    and ne: "maxSize \<noteq> []"
    and bad: "maxSizeToInt64 maxSize = Inl e"
  shows "maxSizeToInt64 ''10Gi'' = Inr 10737418240
       \<and> (\<exists>e'. maxSizeToInt64 ''abc'' = Inl e')
       \<and> fst (Update env ob p0 s0) \<noteq> None
       \<and> calls (snd (Update env ob p0 s0)) = calls s0
       \<and> (fst (initializeDeleteOrRevoke env ob p0) = None \<longrightarrow>
            fst (Update env ob p0 s0) =
              (case (if MaxObjectQuota env (ob_additional_config_data ob) \<noteq> []
                     then Atoi (MaxObjectQuota env (ob_additional_config_data ob)) else Inr 0) of
                 Inl e1 \<Rightarrow> Some (Wrapped e1 ''failed to convert maxObjects to integer'')
               | Inr v \<Rightarrow> Some (Wrapped e ''failed to parse maxSize quota for user %q'')))"
proof -
  have upd: "updateAdditionalSettings env ob p s =
              ((case (if MaxObjectQuota env (ob_additional_config_data ob) \<noteq> []
                     then Atoi (MaxObjectQuota env (ob_additional_config_data ob)) else Inr 0) of
                 Inl e1 \<Rightarrow> Some (Wrapped e1 ''failed to convert maxObjects to integer'')
               | Inr v \<Rightarrow> Some (Wrapped e ''failed to parse maxSize quota for user %q'')), s)" for p s
    using ms ne bad by (simp add: updateAdditionalSettings_def Let_def split: sum.splits)
  obtain r p where init: "initializeDeleteOrRevoke env ob p0 = (r, p)"
    by (cases "initializeDeleteOrRevoke env ob p0")
  have u: "fst (Update env ob p0 s0) \<noteq> None \<and> calls (snd (Update env ob p0 s0)) = calls s0"
    using init by (cases r) (simp_all add: Update_def upd split: sum.splits)
  have v: "fst (initializeDeleteOrRevoke env ob p0) = None \<longrightarrow>
            fst (Update env ob p0 s0) =
              (case (if MaxObjectQuota env (ob_additional_config_data ob) \<noteq> []
                     then Atoi (MaxObjectQuota env (ob_additional_config_data ob)) else Inr 0) of
                 Inl e1 \<Rightarrow> Some (Wrapped e1 ''failed to convert maxObjects to integer'')
               | Inr v \<Rightarrow> Some (Wrapped e ''failed to parse maxSize quota for user %q''))"
    using init by (simp add: Update_def upd)
  from u v maxSize_10Gi maxSize_abc show ?thesis by simp
qed

theorem Update_unparseable_maxSize_witness:
  "MaxSizeQuota example_env (ob_additional_config_data example_ob_unparseable) = ''abc''
   \<and> maxSizeToInt64 ''abc'' =
       Inl (Wrapped (ErrorMsg ''quantities must match the regular expression'') ''failed to parse quantity'')
   \<and> fst (Update example_env example_ob_unparseable example_p0 example_s0) =
       Some (Wrapped (Wrapped (ErrorMsg ''quantities must match the regular expression'')
                        ''failed to parse quantity'')
               ''failed to parse maxSize quota for user %q'')
   \<and> calls (snd (Update example_env example_ob_unparseable example_p0 example_s0)) = []"
proof -
  have ms: "MaxSizeQuota example_env (ob_additional_config_data example_ob_unparseable) = ''abc''"
    by (simp add: example_env_def example_ob_unparseable_def example_ob_def map_get_def)
  have mo: "MaxObjectQuota example_env (ob_additional_config_data example_ob_unparseable) = []"
    by (simp add: example_env_def example_ob_unparseable_def example_ob_def map_get_def)
  have ne: "''abc'' \<noteq> []"
    by simp
  have init: "fst (initializeDeleteOrRevoke example_env example_ob_unparseable example_p0) = None"
    by (simp add: example_ob_unparseable_def example_init)
  from Update_unparseable_maxSize [OF ms ne maxSize_abc, of example_p0 example_s0] ms init
  show ?thesis
    by (simp add: mo maxSize_abc example_s0_def)
qed

section \<open>Update\<close>

lemma updateAdditionalSettings_calls:
  "\<exists>cs. calls (snd (updateAdditionalSettings env ob p s)) = calls s @ cs
        \<and> (\<forall>c \<in> set cs. (\<exists>uid. c = GetUser uid) \<or> (\<exists>q. c = SetUserQuota q))"
proof -
  let ?mo = "MaxObjectQuota env (ob_additional_config_data ob)"
  let ?ms = "MaxSizeQuota env (ob_additional_config_data ob)"
  let ?uid = "map_get (ob_additional_state ob) (key_cephUser env)"
  let ?s1 = "record_call (GetUser ?uid) s"
  show ?thesis
  proof (cases "if ?mo \<noteq> [] then Atoi ?mo else Inr 0")
    case (Inl e)
    then have "calls (snd (updateAdditionalSettings env ob p s)) = calls s @ []"
      by (simp add: updateAdditionalSettings_def Let_def)
    then show ?thesis by simp
  next
    case a: (Inr moi)
    show ?thesis
    proof (cases "if ?ms \<noteq> [] then maxSizeToInt64 ?ms else Inr 0")
      case (Inl e)
      with a have "calls (snd (updateAdditionalSettings env ob p s)) = calls s @ []"
        by (simp add: updateAdditionalSettings_def Let_def)
      then show ?thesis by simp
    next
      case b: (Inr msi)
      show ?thesis
      proof (cases "adm_GetUser env (calls s) ?uid")
        case (Inl e)
        with a b have "calls (snd (updateAdditionalSettings env ob p s)) = calls s @ [GetUser ?uid]"
          by (simp add: updateAdditionalSettings_def Let_def call_GetUser_def)
        then show ?thesis by simp
      next
        case (Inr u)
        with a b have eq: "snd (updateAdditionalSettings env ob p s) =
                snd (updateAdditionalSettings_quota env p ?mo moi ?ms msi u ?s1)"
          by (simp add: updateAdditionalSettings_def Let_def call_GetUser_def)
        from quota_tail_calls [of env p ?mo moi ?ms msi u ?s1]
        consider "calls (snd (updateAdditionalSettings env ob p s)) = calls s @ [GetUser ?uid]"
          | q where "calls (snd (updateAdditionalSettings env ob p s)) = calls s @ [GetUser ?uid, SetUserQuota q]"
          unfolding eq by auto
        then show ?thesis
        proof cases
          case 1 then show ?thesis by simp
        next
          case 2 then show ?thesis by simp
        qed
      qed
    qed
  qed
qed

text \<open>
  C9. \<open>Update\<close> only adds calls to the record, and every call it adds is a lookup of a
  user or a quota write: it writes no bucket policy, creates and deletes no bucket and
  no user. The resolution of the state from the binding, which comes first, reads the
  storage class and the object store and makes none of the recorded calls.
\<close>

theorem Update_only_quota_calls:
  "\<exists>cs. calls (snd (Update env ob p0 s0)) = calls s0 @ cs
        \<and> (\<forall>c \<in> set cs. (\<exists>uid. c = GetUser uid) \<or> (\<exists>q. c = SetUserQuota q))"
proof (cases "initializeDeleteOrRevoke env ob p0")
  case (Pair r p)
  show ?thesis
  proof (cases r)
    case None
    with Pair have "snd (Update env ob p0 s0) =
        snd (updateAdditionalSettings env ob p (logf LvlDebug ''Update event for OB: %+v'' s0))"
      by (simp add: Update_def)
    with updateAdditionalSettings_calls [of env ob p "logf LvlDebug ''Update event for OB: %+v'' s0"]
    show ?thesis by simp
  next
    case (Some e)
    with Pair have "calls (snd (Update env ob p0 s0)) = calls s0 @ []"
      by (simp add: Update_def)
    then show ?thesis by (intro exI [of _ "[]"]) simp
  qed
qed

theorem Update_only_quota_calls_witness:
  "calls (snd (Update example_env example_ob_quota example_p0 example_s0)) =
     [GetUser ''obc-user'',
      SetUserQuota \<lparr>qs_uid = ''obc-user'', qs_enabled = Some True,
                    qs_max_objects = None, qs_max_size = Some 10737418240\<rparr>]"
proof -
  have init: "initializeDeleteOrRevoke example_env example_ob_quota example_p0 = (None, example_p)"
    by (simp add: example_ob_quota_def example_init)
  have run: "calls (snd (Update example_env example_ob_quota example_p0 example_s0)) =
     [GetUser ''obc-user'',
      SetUserQuota \<lparr>qs_uid = ''obc-user'', qs_enabled = Some True,
                    qs_max_objects = None, qs_max_size = Some 10737418240\<rparr>]"
    unfolding Update_def init
    using example_quota_run [of "logf LvlDebug ''Update event for OB: %+v'' example_s0"]
    by (simp add: example_s0_def)
  from Update_only_quota_calls [of example_env example_ob_quota example_p0 example_s0] run
  show ?thesis
    by simp
qed

section \<open>Provision\<close>

lemma initializeCreateOrGrant_calls:
  "initializeCreateOrGrant env options p s = (r, p', s') \<Longrightarrow> calls s' = calls s"
  by (auto simp: initializeCreateOrGrant_def Let_def split: sum.splits prod.splits option.splits if_splits)

text \<open>
  C4. Let \<open>Provision\<close> have resolved its state, created the user \<open>name\<close>, opened the S3
  session and created the bucket, and let \<open>ModifyUser\<close> with max-buckets 1 fail with \<open>e\<close>.
  Then \<open>deleteOBCResource\<close> is called for that user (with the bucket's name) after the
  failed \<open>ModifyUser\<close> and before \<open>Provision\<close> returns; \<open>Provision\<close> returns exactly \<open>e\<close>,
  whatever the cleanup returns; and a failed cleanup adds one warning to the log and
  nothing else.
\<close>

theorem Provision_ModifyUser_failure:
  assumes init: "initializeCreateOrGrant env options p0
                   (logf LvlDebug ''Provision event for OB options: %+v'' s0) = (None, p1, s1)"
    and user: "createCephUser env (calls s0) p1 [] = (name, Inr (accKey, secKey))"
    and p: "p = p1\<lparr>cephUserName := name, accessKeyID := accKey, secretAccessKey := secKey\<rparr>"
    and agent: "new_agent env accKey secKey p = Inr s3svc"
    and bucket: "s3_CreateBucket env (calls s0 @ [CreateCephUser name]) s3svc (bucketName p) = None"
    and modify: "adm_ModifyUser env (calls s0 @ [CreateCephUser name, CreateBucket (bucketName p)]) name 1 = Some e"
  shows "fst (Provision env options p0 s0) = (None, Some e)
       \<and> calls (snd (Provision env options p0 s0)) =
           calls s0 @ [CreateCephUser name, CreateBucket (bucketName p), ModifyUser name 1,
                       DeleteOBCResource name (bucketName p)]
       \<and> logs (snd (Provision env options p0 s0)) =
           logs s1 @ [(LvlInfo, ''Provision: creating bucket %q for OBC %q'')]
             @ (case deleteOBCResource env
                       (calls s0 @ [CreateCephUser name, CreateBucket (bucketName p), ModifyUser name 1])
                       p (bucketName p) of
                  None \<Rightarrow> []
                | Some cleanupErr \<Rightarrow> [(LvlWarning, ''failed to delete OBC resource. %v'')])"
proof -
  have c1: "calls s1 = calls s0"
    using initializeCreateOrGrant_calls [OF init] by simp
  show ?thesis
    using init user agent bucket modify c1 unfolding p
    by (simp add: Provision_def call_createCephUser_def call_CreateBucket_def call_ModifyUser_def
          deleteOBCResourceLogError_def call_deleteOBCResource_def Let_def split: option.splits)
qed

theorem Provision_ModifyUser_failure_witness:
  "fst (initializeCreateOrGrant env_modify_fails example_options example_p0
          (logf LvlDebug ''Provision event for OB options: %+v'' example_s0)) = None
   \<and> adm_ModifyUser env_modify_fails [CreateCephUser ''obc-user'', CreateBucket ''b1''] ''obc-user'' 1
       = Some (ErrorMsg ''ModifyUser failed'')
   \<and> fst (Provision env_modify_fails example_options example_p0 example_s0)
       = (None, Some (ErrorMsg ''ModifyUser failed''))
   \<and> calls (snd (Provision env_modify_fails example_options example_p0 example_s0)) =
       [CreateCephUser ''obc-user'', CreateBucket ''b1'', ModifyUser ''obc-user'' 1,
        DeleteOBCResource ''obc-user'' ''b1'']
   \<and> logs (snd (Provision env_modify_fails example_options example_p0 example_s0)) =
       [(LvlDebug, ''Provision event for OB options: %+v''),
        (LvlInfo, ''initializing and setting CreateOrGrant services''),
        (LvlInfo, ''Provision: creating bucket %q for OBC %q''),
        (LvlWarning, ''failed to delete OBC resource. %v'')]"
proof -
  let ?s1 = "logf LvlInfo ''initializing and setting CreateOrGrant services''
               (logf LvlDebug ''Provision event for OB options: %+v'' example_s0)"
  let ?p = "example_p\<lparr>cephUserName := ''obc-user'', accessKeyID := ''AK-obc-user'',
                       secretAccessKey := ''SK-obc-user''\<rparr>"
  let ?a = "\<lparr>agent_access_key = ''AK-obc-user'', agent_secret_key = ''SK-obc-user'',
             agent_endpoint = (''my-store.rook-ceph.svc'', 80)\<rparr>"
  have init: "initializeCreateOrGrant env_modify_fails example_options example_p0
                (logf LvlDebug ''Provision event for OB options: %+v'' example_s0)
              = (None, example_p\<lparr>cephUserName := []\<rparr>, ?s1)"
    by (simp add: env_modify_fails_def example_create_defs)
  have user: "createCephUser env_modify_fails (calls example_s0) (example_p\<lparr>cephUserName := []\<rparr>) []
                = (''obc-user'', Inr (''AK-obc-user'', ''SK-obc-user''))"
    by (simp add: env_modify_fails_def example_env_def)
  have p: "?p = (example_p\<lparr>cephUserName := []\<rparr>)\<lparr>cephUserName := ''obc-user'', accessKeyID := ''AK-obc-user'',
                       secretAccessKey := ''SK-obc-user''\<rparr>"
    by simp
  have agent: "new_agent env_modify_fails ''AK-obc-user'' ''SK-obc-user'' ?p = Inr ?a"
    by (simp add: new_agent_def env_modify_fails_def example_env_def getObjectStoreEndpoint_def example_p_def)
  have bucket: "s3_CreateBucket env_modify_fails (calls example_s0 @ [CreateCephUser ''obc-user'']) ?a (bucketName ?p) = None"
    by (simp add: env_modify_fails_def example_env_def)
  have modify: "adm_ModifyUser env_modify_fails
                  (calls example_s0 @ [CreateCephUser ''obc-user'', CreateBucket (bucketName ?p)]) ''obc-user'' 1
                = Some (ErrorMsg ''ModifyUser failed'')"
    by (simp add: env_modify_fails_def example_env_def)
  from Provision_ModifyUser_failure [OF init user p agent bucket modify] init modify
  show ?thesis
    by (simp add: env_modify_fails_def example_env_def example_p_def example_s0_def)
qed

section \<open>Revoke by the bucket's owner\<close>

lemma deny_statement_chain:
  "Actions (AllowedActions env)
     (Denies (ForSubResources (bucketName p) (ForResources (bucketName p)
        (ForPrincipals (cephUserName p) (WithSID (cephUserName p) NewPolicyStatement)))))
   = deny_statement env p"
  by (simp add: Actions_def Denies_def ForSubResources_def ForResources_def ForPrincipals_def
        WithSID_def NewPolicyStatement_def deny_statement_def)

lemma Revoke_policy_owner:
  assumes "bkt_owner bucket = cephUserName p"
  shows "calls (snd (Revoke_policy env p bucket s3svc policy s)) =
           calls s @ [PutBucketPolicy (bucketName p)
                        (case policy of None \<Rightarrow> NewBucketPolicy env (deny_statement env p)
                                      | Some pol \<Rightarrow> ModifyBucketPolicy env pol (deny_statement env p))]
       \<and> fst (Revoke_policy env p bucket s3svc policy s) =
           Wrapf (s3_PutBucketPolicy env (calls s) s3svc (bucketName p)
                    (case policy of None \<Rightarrow> NewBucketPolicy env (deny_statement env p)
                                  | Some pol \<Rightarrow> ModifyBucketPolicy env pol (deny_statement env p)))
                 ''failed to update policy''"
  using assms
  by (simp add: Revoke_policy_def deny_statement_chain call_PutBucketPolicy_def Let_def split: option.splits)

lemma Revoke_owner_no_delete:
  assumes init: "initializeDeleteOrRevoke env ob p0 = (None, p)"
    and info: "adm_GetBucketInfo env (calls s0) (bucketName p) = Inr bucket"
    and owner: "bkt_owner bucket = cephUserName p"
  shows "\<exists>cs. calls (snd (Revoke env ob p0 s0)) = calls s0 @ cs \<and> \<not> list_ex is_delete_call cs"
proof -
  let ?s1 = "record_call (GetBucketInfo (bucketName p))
               (logf LvlInfo ''Revoke: denying access to bucket %q for OB %q''
                 (logf LvlDebug ''Revoke event for OB: %+v'' s0))"
  show ?thesis
  proof (cases "cephUserName p = []")
    case True
    with init info owner have "calls (snd (Revoke env ob p0 s0)) = calls s0 @ [GetBucketInfo (bucketName p)]"
      by (simp add: Revoke_def call_GetBucketInfo_def)
    then show ?thesis by simp
  next
    case ne: False
    show ?thesis
    proof (cases "adm_GetUser env (calls s0 @ [GetBucketInfo (bucketName p)]) (cephUserName p)")
      case (Inl e)
      with init info owner ne have "calls (snd (Revoke env ob p0 s0)) =
           calls s0 @ [GetBucketInfo (bucketName p), GetUser (cephUserName p)]"
        by (simp add: Revoke_def call_GetBucketInfo_def call_GetUser_def)
      then show ?thesis by simp
    next
      case u: (Inr user)
      show ?thesis
      proof (cases "user_keys user")
        case Nil
        with u init info owner ne have "calls (snd (Revoke env ob p0 s0)) =
           calls s0 @ [GetBucketInfo (bucketName p), GetUser (cephUserName p)]"
          by (simp add: Revoke_def call_GetBucketInfo_def call_GetUser_def)
        then show ?thesis by simp
      next
        case (Cons k ks)
        show ?thesis
        proof (cases "new_agent env (key_access k) (key_secret k) p")
          case (Inl e)
          with Cons u init info owner ne have "calls (snd (Revoke env ob p0 s0)) =
             calls s0 @ [GetBucketInfo (bucketName p), GetUser (cephUserName p)]"
            by (simp add: Revoke_def call_GetBucketInfo_def call_GetUser_def)
          then show ?thesis by simp
        next
          case a: (Inr s3svc)
          have "calls (snd (Revoke env ob p0 s0)) =
                  calls s0 @ [GetBucketInfo (bucketName p), GetUser (cephUserName p), GetBucketPolicy (bucketName p)]
              \<or> (\<exists>pol. calls (snd (Revoke env ob p0 s0)) =
                  calls s0 @ [GetBucketInfo (bucketName p), GetUser (cephUserName p), GetBucketPolicy (bucketName p),
                              PutBucketPolicy (bucketName p) pol])"
            using a Cons u init info owner ne Revoke_policy_owner [OF owner, of env s3svc]
            by (simp add: Revoke_def call_GetBucketInfo_def call_GetUser_def call_GetBucketPolicy_def
                  split: prod.splits option.splits error.splits)
          then show ?thesis by auto
        qed
      qed
    qed
  qed
qed

text \<open>
  C1, as amended. Let \<open>Revoke\<close> have resolved its state and fetched the bucket's info, and
  let the bucket's owner be the principal being revoked. Then \<open>Revoke\<close> never calls
  \<open>deleteOBCResource\<close>, whatever happens next. If moreover the owner is named, its account
  is found and has a key, the S3 session opens and the bucket's policy is read (or the
  answer is \<open>NoSuchBucketPolicy\<close>), then \<open>Revoke\<close> makes exactly one policy write after the
  three lookups, of the policy read (or a new one) with the deny statement for that
  principal, and returns the outcome of the write (wrapped when it is an error).
\<close>

theorem Revoke_owner_writes_deny:
  assumes init: "initializeDeleteOrRevoke env ob p0 = (None, p)"
    and info: "adm_GetBucketInfo env (calls s0) (bucketName p) = Inr bucket"
    and owner: "bkt_owner bucket = cephUserName p"
  shows "(\<exists>cs. calls (snd (Revoke env ob p0 s0)) = calls s0 @ cs \<and> \<not> list_ex is_delete_call cs)
       \<and> (cephUserName p \<noteq> []
           \<and> adm_GetUser env (calls s0 @ [GetBucketInfo (bucketName p)]) (cephUserName p) = Inr user
           \<and> user_keys user = k # ks
           \<and> new_agent env (key_access k) (key_secret k) p = Inr s3svc
           \<and> s3_GetBucketPolicy env (calls s0 @ [GetBucketInfo (bucketName p), GetUser (cephUserName p)])
                 s3svc (bucketName p) = (policy, gerr)
           \<and> (gerr = None \<or> gerr = Some (AwsError ''NoSuchBucketPolicy''))
          \<longrightarrow> calls (snd (Revoke env ob p0 s0)) =
                calls s0 @ [GetBucketInfo (bucketName p), GetUser (cephUserName p),
                            GetBucketPolicy (bucketName p),
                            PutBucketPolicy (bucketName p)
                              (case (if gerr = None then policy else None) of
                                 None \<Rightarrow> NewBucketPolicy env (deny_statement env p)
                               | Some pol \<Rightarrow> ModifyBucketPolicy env pol (deny_statement env p))]
              \<and> fst (Revoke env ob p0 s0) =
                  Wrapf (s3_PutBucketPolicy env
                           (calls s0 @ [GetBucketInfo (bucketName p), GetUser (cephUserName p),
                                        GetBucketPolicy (bucketName p)])
                           s3svc (bucketName p)
                           (case (if gerr = None then policy else None) of
                              None \<Rightarrow> NewBucketPolicy env (deny_statement env p)
                            | Some pol \<Rightarrow> ModifyBucketPolicy env pol (deny_statement env p)))
                        ''failed to update policy'')"
proof (intro conjI impI)
  show "\<exists>cs. calls (snd (Revoke env ob p0 s0)) = calls s0 @ cs \<and> \<not> list_ex is_delete_call cs"
    by (rule Revoke_owner_no_delete [OF init info owner])
next
  assume h: "cephUserName p \<noteq> []
           \<and> adm_GetUser env (calls s0 @ [GetBucketInfo (bucketName p)]) (cephUserName p) = Inr user
           \<and> user_keys user = k # ks
           \<and> new_agent env (key_access k) (key_secret k) p = Inr s3svc
           \<and> s3_GetBucketPolicy env (calls s0 @ [GetBucketInfo (bucketName p), GetUser (cephUserName p)])
                 s3svc (bucketName p) = (policy, gerr)
           \<and> (gerr = None \<or> gerr = Some (AwsError ''NoSuchBucketPolicy''))"
  let ?s3 = "record_call (GetBucketPolicy (bucketName p))
               (record_call (GetUser (cephUserName p))
                 (record_call (GetBucketInfo (bucketName p))
                   (logf LvlInfo ''Revoke: denying access to bucket %q for OB %q''
                     (logf LvlDebug ''Revoke event for OB: %+v'' s0))))"
  have eq: "Revoke env ob p0 s0 =
              Revoke_policy env p bucket s3svc (if gerr = None then policy else None)
                (if gerr = None then ?s3
                 else logf LvlError ''no bucket policy for bucket %q, so no need to drop policy'' ?s3)"
    using init info owner h
    by (auto simp: Revoke_def call_GetBucketInfo_def call_GetUser_def call_GetBucketPolicy_def)
  show "calls (snd (Revoke env ob p0 s0)) =
                calls s0 @ [GetBucketInfo (bucketName p), GetUser (cephUserName p),
                            GetBucketPolicy (bucketName p),
                            PutBucketPolicy (bucketName p)
                              (case (if gerr = None then policy else None) of
                                 None \<Rightarrow> NewBucketPolicy env (deny_statement env p)
                               | Some pol \<Rightarrow> ModifyBucketPolicy env pol (deny_statement env p))]"
    unfolding eq using Revoke_policy_owner [OF owner, of env s3svc] by simp
  show "fst (Revoke env ob p0 s0) =
                  Wrapf (s3_PutBucketPolicy env
                           (calls s0 @ [GetBucketInfo (bucketName p), GetUser (cephUserName p),
                                        GetBucketPolicy (bucketName p)])
                           s3svc (bucketName p)
                           (case (if gerr = None then policy else None) of
                              None \<Rightarrow> NewBucketPolicy env (deny_statement env p)
                            | Some pol \<Rightarrow> ModifyBucketPolicy env pol (deny_statement env p)))
                        ''failed to update policy''"
    unfolding eq using Revoke_policy_owner [OF owner, of env s3svc] by simp
qed

theorem Revoke_owner_writes_deny_witness:
  "initializeDeleteOrRevoke env_principal_owner (example_ob Map.empty) example_p0 = (None, example_p)
   \<and> adm_GetBucketInfo env_principal_owner (calls example_s0) (bucketName example_p)
       = Inr \<lparr>bkt_name = ''b1'', bkt_owner = ''obc-user''\<rparr>
   \<and> cephUserName example_p = ''obc-user''
   \<and> fst (Revoke env_principal_owner (example_ob Map.empty) example_p0 example_s0) = None
   \<and> calls (snd (Revoke env_principal_owner (example_ob Map.empty) example_p0 example_s0)) =
       [GetBucketInfo ''b1'', GetUser ''obc-user'', GetBucketPolicy ''b1'',
        PutBucketPolicy ''b1''
          [\<lparr>st_sid = ''obc-user'', st_principals = [''obc-user''],
            st_resources = [BucketResource ''b1'', SubResources ''b1''],
            st_effect = EffectDeny, st_actions = [''s3:GetObject'', ''s3:PutObject'']\<rparr>]]"
proof -
  have init: "initializeDeleteOrRevoke env_principal_owner (example_ob Map.empty) example_p0 = (None, example_p)"
    by (simp add: env_principal_owner_def example_init_defs)
  have info: "adm_GetBucketInfo env_principal_owner (calls example_s0) (bucketName example_p)
                = Inr \<lparr>bkt_name = ''b1'', bkt_owner = ''obc-user''\<rparr>"
    by (simp add: env_principal_owner_def example_env_def example_p_def)
  have owner: "bkt_owner \<lparr>bkt_name = ''b1'', bkt_owner = ''obc-user''\<rparr> = cephUserName example_p"
    by (simp add: example_p_def)
  from Revoke_owner_writes_deny [OF init info owner,
        where user = "example_user ''obc-user''"
          and k = "\<lparr>key_access = ''AK-obc-user'', key_secret = ''SK-obc-user''\<rparr>" and ks = "[]"
          and ?s3svc = "\<lparr>agent_access_key = ''AK-obc-user'', agent_secret_key = ''SK-obc-user'',
                        agent_endpoint = (''my-store.rook-ceph.svc'', 80)\<rparr>"
          and policy = None and gerr = "Some (AwsError ''NoSuchBucketPolicy'')"]
    init info
  show ?thesis
    by (simp add: env_principal_owner_def example_env_def example_p_def example_s0_def example_user_def
          new_agent_def getObjectStoreEndpoint_def deny_statement_def)
qed

text \<open>
  The claim as it was stated fails when the owner's account no longer exists: the
  bucket's owner is the principal being revoked, and \<open>Revoke\<close> returns nil after the two
  lookups without writing any policy.
\<close>

theorem Revoke_owner_deny_counterexample:
  "initializeDeleteOrRevoke env_principal_owner_gone (example_ob Map.empty) example_p0 = (None, example_p)
   \<and> cephUserName example_p = ''obc-user''
   \<and> adm_GetBucketInfo env_principal_owner_gone [] ''b1'' = Inr \<lparr>bkt_name = ''b1'', bkt_owner = ''obc-user''\<rparr>
   \<and> fst (Revoke env_principal_owner_gone (example_ob Map.empty) example_p0 example_s0) = None
   \<and> calls (snd (Revoke env_principal_owner_gone (example_ob Map.empty) example_p0 example_s0)) =
       [GetBucketInfo ''b1'', GetUser ''obc-user'']
   \<and> \<not> list_ex is_policy_write
         (calls (snd (Revoke env_principal_owner_gone (example_ob Map.empty) example_p0 example_s0)))"
proof -
  have init: "initializeDeleteOrRevoke env_principal_owner_gone (example_ob Map.empty) example_p0 = (None, example_p)"
    by (simp add: env_principal_owner_gone_def example_init_defs)
  have run: "calls (snd (Revoke env_principal_owner_gone (example_ob Map.empty) example_p0 example_s0)) =
               [GetBucketInfo ''b1'', GetUser ''obc-user'']
             \<and> fst (Revoke env_principal_owner_gone (example_ob Map.empty) example_p0 example_s0) = None"
    unfolding Revoke_def init
    by (simp add: call_GetBucketInfo_def call_GetUser_def env_principal_owner_gone_def
          example_env_def example_p_def example_s0_def)
  show ?thesis
    using init run by (simp add: env_principal_owner_gone_def example_env_def example_p_def)
qed

section \<open>Grant on a missing bucket\<close>

lemma Grant_bucket_missing:
  assumes "initializeCreateOrGrant env options p0
             (logf LvlDebug ''Grant event for OB options: %+v'' s0) = (None, p1, s1)"
    and "bucketExists env (calls s0) p1 (bucketName p1) = (False, berr)"
  shows "fst (Grant env options p0 s0) = (None, Wrapf berr ''bucket %s does not exist'')
       \<and> calls (snd (Grant env options p0 s0)) = calls s0 @ [BucketExists (bucketName p1)]"
  using assms initializeCreateOrGrant_calls [OF assms(1)]
  by (simp add: Grant_def call_bucketExists_def)

text \<open>
  C8. When \<open>bucketExists\<close> answers \<open>(false, nil)\<close>, \<open>Grant\<close> stops before creating a user,
  but what it returns is \<open>(nil, nil)\<close>: \<open>errors.Wrapf\<close> of a nil error is nil, so no error
  reaches the caller.
\<close>

theorem Grant_missing_bucket_returns_nil:
  "fst (Grant env_bucket_absent example_options example_p0 example_s0) = (None, None)
   \<and> calls (snd (Grant env_bucket_absent example_options example_p0 example_s0)) = [BucketExists ''b1'']"
proof -
  let ?s1 = "logf LvlInfo ''initializing and setting CreateOrGrant services''
               (logf LvlDebug ''Grant event for OB options: %+v'' example_s0)"
  have init: "initializeCreateOrGrant env_bucket_absent example_options example_p0
                (logf LvlDebug ''Grant event for OB options: %+v'' example_s0)
              = (None, example_p\<lparr>cephUserName := []\<rparr>, ?s1)"
    by (simp add: env_bucket_absent_def example_create_defs)
  have ex: "bucketExists env_bucket_absent (calls example_s0) (example_p\<lparr>cephUserName := []\<rparr>)
              (bucketName (example_p\<lparr>cephUserName := []\<rparr>)) = (False, None)"
    by (simp add: env_bucket_absent_def example_env_def)
  from Grant_bucket_missing [OF init ex] show ?thesis
    by (simp add: example_p_def example_s0_def)
qed

end
